theory Spec2Isabelle
  imports Main "HOL-Library.Word" "HOL-Library.Signed_Division"
begin

section \<open>Machine types and enumerants\<close>

text \<open>
  The fixed-width types of \<^verbatim>\<open>glad.h\<close> and of the C++ standard library on an LP64
  platform. \<^verbatim>\<open>GLsizeiptr\<close>, \<^verbatim>\<open>GLsizei\<close> and \<^verbatim>\<open>GLint\<close> are signed: their
  value is read with \<open>sint\<close>. \<^verbatim>\<open>GLuint\<close>, \<^verbatim>\<open>GLenum\<close> and \<^verbatim>\<open>size_t\<close> are
  unsigned: their value is read with \<open>unat\<close> or \<open>uint\<close>. A conversion between two
  types of the same width keeps the bits, so it does not show in the model.
\<close>

type_synonym byte = "8 word"
type_synonym GLuint = "32 word"
type_synonym GLenum = "32 word"
type_synonym GLint = "32 word"
type_synonym GLsizei = "32 word"
type_synonym GLboolean = "8 word"
type_synonym GLsizeiptr = "64 word"
type_synonym size_t = "64 word"
type_synonym pointer = "64 word"

definition GL_NO_ERROR :: GLenum where "GL_NO_ERROR = 0"
definition GL_TRIANGLES :: GLenum where "GL_TRIANGLES = 0x0004"
definition GL_INVALID_ENUM :: GLenum where "GL_INVALID_ENUM = 0x0500"
definition GL_INVALID_OPERATION :: GLenum where "GL_INVALID_OPERATION = 0x0502"
definition GL_UNSIGNED_BYTE :: GLenum where "GL_UNSIGNED_BYTE = 0x1401"
definition GL_UNSIGNED_SHORT :: GLenum where "GL_UNSIGNED_SHORT = 0x1403"
definition GL_UNSIGNED_INT :: GLenum where "GL_UNSIGNED_INT = 0x1405"
definition GL_STATIC_DRAW :: GLenum where "GL_STATIC_DRAW = 0x88E4"
definition GL_ARRAY_BUFFER :: GLenum where "GL_ARRAY_BUFFER = 0x8892"
definition GL_ELEMENT_ARRAY_BUFFER :: GLenum where "GL_ELEMENT_ARRAY_BUFFER = 0x8893"

definition nullptr :: pointer where "nullptr = 0"

text \<open>
  Division of two \<^verbatim>\<open>GLsizeiptr\<close> values as C++ does it: on the signed values,
  rounding towards zero. The divisors of this program are 4, 2 and 1, so the
  quotient always fits.
\<close>

definition sdiv_GLsizeiptr :: "GLsizeiptr \<Rightarrow> GLsizeiptr \<Rightarrow> GLsizeiptr" where
  "sdiv_GLsizeiptr a b = word_of_int (sint a sdiv sint b)"

text \<open>\<^verbatim>\<open>static_cast<GLuint>\<close> of a 64-bit value keeps the low 32 bits.\<close>

definition to_GLuint :: "64 word \<Rightarrow> GLuint" where
  "to_GLuint x = ucast x"

section \<open>The graphics context\<close>

text \<open>
  OpenGL is not part of the repository. The context is modelled as far as the
  mesh code observes or changes it: the buffer data stores, the vertex-array
  objects with the wiring they record, the vertex-array binding, the
  array-buffer binding, the error flag, and the sequence of entry points
  called. The element-array binding belongs to the vertex array that is bound.
  The driver's validation of enumerants and implementation limits is not
  modelled: a call takes effect whenever the object it writes to exists.
\<close>

datatype gl_call =
    GenVertexArrays GLuint
  | BindVertexArray GLuint
  | BindBuffer GLenum GLuint
  | EnableVertexAttribArray GLuint
  | VertexAttribPointer GLuint GLint GLenum GLboolean GLsizei pointer
  | DrawElementsInstanced GLenum GLsizei GLenum pointer GLsizei
  | GetError

record attrib_pointer =
  ap_size :: GLint
  ap_type :: GLenum
  ap_normalized :: GLboolean
  ap_stride :: GLsizei
  ap_pointer :: pointer
  ap_buffer :: GLuint

record vertex_array =
  va_element_buffer :: GLuint
  va_enabled :: "GLuint \<Rightarrow> bool"
  va_pointers :: "GLuint \<rightharpoonup> attrib_pointer"

record buffer_store =
  bs_size :: GLsizeiptr
  bs_usage :: GLenum
  bs_bytes :: "byte list"

datatype diag = Mesh_Construction_Error GLenum

record world =
  gl_next_name :: GLuint
  gl_buffers :: "GLuint \<rightharpoonup> buffer_store"
  gl_vertex_arrays :: "GLuint \<rightharpoonup> vertex_array"
  gl_vertex_array_binding :: GLuint
  gl_array_buffer_binding :: GLuint
  gl_error :: GLenum
  gl_calls :: "gl_call list"
  cerr :: "diag list"

definition empty_vertex_array :: vertex_array where
  "empty_vertex_array =
     \<lparr>va_element_buffer = 0, va_enabled = (\<lambda>_. False), va_pointers = Map.empty\<rparr>"

text \<open>The error flag keeps the first error until it is read.\<close>

definition set_error :: "GLenum \<Rightarrow> world \<Rightarrow> world" where
  "set_error e w = (if gl_error w = GL_NO_ERROR then w\<lparr>gl_error := e\<rparr> else w)"

definition log_call :: "gl_call \<Rightarrow> world \<Rightarrow> world" where
  "log_call c w = w\<lparr>gl_calls := gl_calls w @ [c]\<rparr>"

text \<open>
  Writes to the vertex array that is bound; without such an object the call
  raises \<^verbatim>\<open>GL_INVALID_OPERATION\<close> and changes nothing else.
\<close>

definition update_bound_vertex_array :: "(vertex_array \<Rightarrow> vertex_array) \<Rightarrow> world \<Rightarrow> world" where
  "update_bound_vertex_array f w =
     (case gl_vertex_arrays w (gl_vertex_array_binding w) of
        None \<Rightarrow> set_error GL_INVALID_OPERATION w
      | Some va \<Rightarrow>
          w\<lparr>gl_vertex_arrays := (gl_vertex_arrays w)(gl_vertex_array_binding w \<mapsto> f va)\<rparr>)"

text \<open>
  \<^verbatim>\<open>glGenVertexArrays(1, &h)\<close>: the driver hands out its next unused name. The
  name zero stands for no vertex array (or the default one of a compatibility
  context), so binding it always succeeds.
\<close>

definition glGenVertexArrays :: "world \<Rightarrow> GLuint \<times> world" where
  "glGenVertexArrays w =
     (let h = gl_next_name w
      in (h, log_call (GenVertexArrays h)
               (w\<lparr>gl_next_name := h + 1,
                   gl_vertex_arrays := (gl_vertex_arrays w)(h \<mapsto> empty_vertex_array)\<rparr>)))"

definition glBindVertexArray :: "GLuint \<Rightarrow> world \<Rightarrow> world" where
  "glBindVertexArray h w =
     (let w' = log_call (BindVertexArray h) w
      in if h = 0 then w'\<lparr>gl_vertex_array_binding := 0\<rparr>
         else (case gl_vertex_arrays w' h of
                 None \<Rightarrow> set_error GL_INVALID_OPERATION w'
               | Some _ \<Rightarrow> w'\<lparr>gl_vertex_array_binding := h\<rparr>))"

definition glBindBuffer :: "GLenum \<Rightarrow> GLuint \<Rightarrow> world \<Rightarrow> world" where
  "glBindBuffer target h w =
     (let w' = log_call (BindBuffer target h) w
      in if target = GL_ARRAY_BUFFER then w'\<lparr>gl_array_buffer_binding := h\<rparr>
         else if target = GL_ELEMENT_ARRAY_BUFFER
         then update_bound_vertex_array (\<lambda>va. va\<lparr>va_element_buffer := h\<rparr>) w'
         else set_error GL_INVALID_ENUM w')"

definition glEnableVertexAttribArray :: "GLuint \<Rightarrow> world \<Rightarrow> world" where
  "glEnableVertexAttribArray index w =
     update_bound_vertex_array (\<lambda>va. va\<lparr>va_enabled := (va_enabled va)(index := True)\<rparr>)
       (log_call (EnableVertexAttribArray index) w)"

text \<open>
  The attribute records the buffer that is bound to \<^verbatim>\<open>GL_ARRAY_BUFFER\<close> at the
  moment of the call: that buffer is the one the attribute reads from.
\<close>

definition glVertexAttribPointer ::
  "GLuint \<Rightarrow> GLint \<Rightarrow> GLenum \<Rightarrow> GLboolean \<Rightarrow> GLsizei \<Rightarrow> pointer \<Rightarrow> world \<Rightarrow> world" where
  "glVertexAttribPointer index sz ty norm stride ptr w =
     (let w' = log_call (VertexAttribPointer index sz ty norm stride ptr) w
      in update_bound_vertex_array
           (\<lambda>va. va\<lparr>va_pointers := (va_pointers va)(index \<mapsto>
                     \<lparr>ap_size = sz, ap_type = ty, ap_normalized = norm,
                      ap_stride = stride, ap_pointer = ptr,
                      ap_buffer = gl_array_buffer_binding w'\<rparr>)\<rparr>) w')"

text \<open>Rasterisation is outside the model: the draw call is recorded.\<close>

definition glDrawElementsInstanced ::
  "GLenum \<Rightarrow> GLsizei \<Rightarrow> GLenum \<Rightarrow> pointer \<Rightarrow> GLsizei \<Rightarrow> world \<Rightarrow> world" where
  "glDrawElementsInstanced mode count type indices instancecount w =
     log_call (DrawElementsInstanced mode count type indices instancecount) w"

definition glGetError :: "world \<Rightarrow> GLenum \<times> world" where
  "glGetError w = (gl_error w, (log_call GetError w)\<lparr>gl_error := GL_NO_ERROR\<rparr>)"

section \<open>BufferObject\<close>

text \<open>
  Modelled from the spec: \<^verbatim>\<open>BufferObject.hpp\<close> is included by \<^verbatim>\<open>Mesh.hpp\<close> but is
  not among the sources. The spec describes it as the owner of one buffer handle
  of a given target kind that knows its byte size, is created by uploading bytes
  with a usage hint, and offers \<^verbatim>\<open>bind\<close>, \<^verbatim>\<open>bufferSubData\<close> and \<^verbatim>\<open>getByteSize\<close>;
  a sub-range update rewrites a byte range of the existing buffer in place.
\<close>

record BufferObject =
  bo_target :: GLenum
  bo_handle :: GLuint
  bo_byte_size :: GLsizeiptr

text \<open>
  A typed container, seen as the spec sees it: a source from which a contiguous
  byte range and its length can be obtained. \<open>c_size\<close> is what \<^verbatim>\<open>size()\<close>
  returns, \<open>c_sizeof\<close> is \<^verbatim>\<open>sizeof(value_type)\<close>, \<open>c_bytes\<close> are the bytes
  behind \<^verbatim>\<open>data()\<close>.
\<close>

record container =
  c_size :: size_t
  c_sizeof :: size_t
  c_bytes :: "byte list"

text \<open>
  Modelled from the spec: the constructor of \<^verbatim>\<open>BufferObject\<close> from a data pointer
  and a byte size. A pointer is modelled by the bytes readable behind it.
\<close>

definition BufferObject_new ::
  "GLenum \<Rightarrow> byte list \<Rightarrow> GLsizeiptr \<Rightarrow> GLenum \<Rightarrow> world \<Rightarrow> BufferObject \<times> world" where
  "BufferObject_new target data byte_size usage w =
     (let h = gl_next_name w
      in (\<lparr>bo_target = target, bo_handle = h, bo_byte_size = byte_size\<rparr>,
          w\<lparr>gl_next_name := h + 1,
            gl_buffers := (gl_buffers w)(h \<mapsto>
              \<lparr>bs_size = byte_size, bs_usage = usage,
               bs_bytes = take (nat (sint byte_size)) data\<rparr>)\<rparr>))"

text \<open>
  Modelled from the spec: the constructor of \<^verbatim>\<open>BufferObject\<close> from a container,
  whose byte size is derived as length times element size.
\<close>

definition BufferObject_new_container ::
  "GLenum \<Rightarrow> container \<Rightarrow> GLenum \<Rightarrow> world \<Rightarrow> BufferObject \<times> world" where
  "BufferObject_new_container target c usage w =
     BufferObject_new target (c_bytes c) (c_size c * c_sizeof c) usage w"

text \<open>Modelled from the spec: \<^verbatim>\<open>BufferObject::bind\<close>.\<close>

definition BufferObject_bind :: "BufferObject \<Rightarrow> world \<Rightarrow> world" where
  "BufferObject_bind bo w = glBindBuffer (bo_target bo) (bo_handle bo) w"

text \<open>Modelled from the spec: \<^verbatim>\<open>BufferObject::getByteSize\<close>.\<close>

definition BufferObject_getByteSize :: "BufferObject \<Rightarrow> GLsizeiptr" where
  "BufferObject_getByteSize bo = bo_byte_size bo"

text \<open>
  Modelled from the spec: \<^verbatim>\<open>BufferObject::bufferSubData\<close> with a data pointer. A
  well-formed range \<open>[offset, offset + size)\<close> of the buffer is overwritten in
  place; the spec says nothing about other ranges, which leave the buffer as it
  is here.
\<close>

definition BufferObject_bufferSubData ::
  "BufferObject \<Rightarrow> byte list \<Rightarrow> GLsizeiptr \<Rightarrow> GLsizeiptr \<Rightarrow> world \<Rightarrow> world" where
  "BufferObject_bufferSubData bo data byte_size byte_offset w =
     (case gl_buffers w (bo_handle bo) of
        None \<Rightarrow> w
      | Some bs \<Rightarrow>
          (let off = nat (sint byte_offset); n = nat (sint byte_size)
           in if 0 \<le> sint byte_offset \<and> 0 \<le> sint byte_size \<and> n \<le> length data
                 \<and> off + n \<le> length (bs_bytes bs)
              then w\<lparr>gl_buffers := (gl_buffers w)(bo_handle bo \<mapsto>
                     bs\<lparr>bs_bytes := take off (bs_bytes bs) @ take n data
                                      @ drop (off + n) (bs_bytes bs)\<rparr>)\<rparr>
              else w))"

text \<open>Modelled from the spec: \<^verbatim>\<open>BufferObject::bufferSubData\<close> with a container.\<close>

definition BufferObject_bufferSubData_container ::
  "BufferObject \<Rightarrow> container \<Rightarrow> GLsizeiptr \<Rightarrow> world \<Rightarrow> world" where
  "BufferObject_bufferSubData_container bo c byte_offset w =
     BufferObject_bufferSubData bo (c_bytes c) (c_size c * c_sizeof c) byte_offset w"

section \<open>VertexLayout\<close>

text \<open>
  Modelled from the spec: \<^verbatim>\<open>VertexLayout.hpp\<close> is not among the sources. The
  layout is an ordered list of attribute descriptors (component count, component
  type, normalized flag, byte offset within a vertex) and a list of strides. The
  fields are the ones \<^verbatim>\<open>Mesh.hpp\<close> reads (\<^verbatim>\<open>size\<close>, \<^verbatim>\<open>type\<close>, \<^verbatim>\<open>normalized\<close>,
  \<^verbatim>\<open>offset\<close>; \<^verbatim>\<open>attributes\<close>, \<^verbatim>\<open>strides\<close>).
\<close>

record Attribute =
  size_attr :: GLint
  type_attr :: GLenum
  normalized_attr :: GLboolean
  offset_attr :: pointer

record VertexLayout =
  attributes :: "Attribute list"
  strides :: "GLsizei list"

section \<open>Mesh\<close>

datatype error = Out_Of_Bounds | Bad_Alloc

record Mesh =
  m_vbos :: "BufferObject list"
  m_ibo :: BufferObject
  m_va_handle :: GLuint
  m_vertex_descriptor :: VertexLayout
  m_indices_cnt :: GLuint
  m_index_type :: GLenum
  m_usage :: GLenum
  m_primitive_type :: GLenum


text \<open>
  \<^verbatim>\<open>operator[]\<close> and \<^verbatim>\<open>front()\<close> of \<^verbatim>\<open>std::vector\<close>. Outside the vector the
  behaviour of the program is undefined; the model stops with an error there.
\<close>

definition vector_at :: "'a list \<Rightarrow> nat \<Rightarrow> error + 'a" where
  "vector_at xs i = (if i < length xs then Inr (xs ! i) else Inl Out_Of_Bounds)"

definition vector_front :: "'a list \<Rightarrow> error + 'a" where
  "vector_front xs = (case xs of [] \<Rightarrow> Inl Out_Of_Bounds | x # _ \<Rightarrow> Inr x)"

text \<open>
  A default argument of the declaration: \<open>None\<close> stands for an argument the
  caller leaves out.
\<close>

definition default_arg :: "'a \<Rightarrow> 'a option \<Rightarrow> 'a" where
  "default_arg d a = (case a of None \<Rightarrow> d | Some v \<Rightarrow> v)"

subsection \<open>Construction\<close>

text \<open>
  Lines 191 to 193: one \<^verbatim>\<open>BufferObject\<close> per vertex data pointer, appended in
  input order. The counter is an \<^verbatim>\<open>unsigned int\<close> compared with a \<^verbatim>\<open>size_t\<close>:
  with \<open>2 ^ 32\<close> or more pointers it wraps to zero and the loop appends again
  from the start until memory runs out, which is the error \<open>Bad_Alloc\<close> here.
\<close>

function Mesh_vbo_loop_ptr ::
  "byte list list \<Rightarrow> size_t list \<Rightarrow> GLenum \<Rightarrow> nat \<Rightarrow> BufferObject list \<Rightarrow> world
     \<Rightarrow> error + (BufferObject list \<times> world)" where
  "Mesh_vbo_loop_ptr vertex_data vertex_data_byte_sizes usage i vbos w =
     (if i < length vertex_data then
        (case vector_at vertex_data_byte_sizes i of
           Inl e \<Rightarrow> Inl e
         | Inr byte_size \<Rightarrow>
             if Suc i = 2 ^ 32 then Inl Bad_Alloc
             else Mesh_vbo_loop_ptr vertex_data vertex_data_byte_sizes usage (Suc i)
                    (vbos @ [fst (BufferObject_new GL_ARRAY_BUFFER (vertex_data ! i) byte_size usage w)])
                    (snd (BufferObject_new GL_ARRAY_BUFFER (vertex_data ! i) byte_size usage w)))
      else Inr (vbos, w))"
  by pat_completeness auto
termination
  by (relation "measure (\<lambda>(vertex_data, _, _, i, _, _). length vertex_data - i)") auto

text \<open>Lines 263 and 264: the same loop over containers.\<close>

function Mesh_vbo_loop_container ::
  "container list \<Rightarrow> GLenum \<Rightarrow> nat \<Rightarrow> BufferObject list \<Rightarrow> world
     \<Rightarrow> error + (BufferObject list \<times> world)" where
  "Mesh_vbo_loop_container vertex_data usage i vbos w =
     (if i < length vertex_data then
        (if Suc i = 2 ^ 32 then Inl Bad_Alloc
         else Mesh_vbo_loop_container vertex_data usage (Suc i)
                (vbos @ [fst (BufferObject_new_container GL_ARRAY_BUFFER (vertex_data ! i) usage w)])
                (snd (BufferObject_new_container GL_ARRAY_BUFFER (vertex_data ! i) usage w)))
      else Inr (vbos, w))"
  by pat_completeness auto
termination
  by (relation "measure (\<lambda>(vertex_data, _, i, _, _). length vertex_data - i)") auto

text \<open>
  \<^verbatim>\<open>static_cast<GLuint>(vertex_descriptor.attributes.size())\<close>, the bound of the
  loop over the attributes.
\<close>

definition attrib_count :: "VertexLayout \<Rightarrow> nat" where
  "attrib_count vertex_descriptor =
     unat (to_GLuint (of_nat (length (attributes vertex_descriptor))))"

text \<open>
  Lines 203 to 218 and, with the same text, lines 273 to 288: the loop over the
  attributes of the layout. The counter stays below a \<^verbatim>\<open>GLuint\<close> bound, so it
  does not wrap.
\<close>

function Mesh_attrib_loop ::
  "BufferObject list \<Rightarrow> VertexLayout \<Rightarrow> nat \<Rightarrow> world \<Rightarrow> error + world" where
  "Mesh_attrib_loop vbos vertex_descriptor attrib_idx w =
     (if attrib_idx < attrib_count vertex_descriptor then
        (case vector_at (attributes vertex_descriptor) attrib_idx of
           Inl e \<Rightarrow> Inl e
         | Inr attribute \<Rightarrow>
            (case (if length (strides vertex_descriptor) = 1
                   then vector_front (strides vertex_descriptor)
                   else vector_at (strides vertex_descriptor) attrib_idx) of
               Inl e \<Rightarrow> Inl e
             | Inr attribute_stride \<Rightarrow>
                (case vector_at vbos attrib_idx of
                   Inl e \<Rightarrow> Inl e
                 | Inr vbo \<Rightarrow>
                     Mesh_attrib_loop vbos vertex_descriptor (Suc attrib_idx)
                       (glVertexAttribPointer (of_nat attrib_idx)
                          (size_attr attribute) (type_attr attribute)
                          (normalized_attr attribute) attribute_stride
                          (offset_attr attribute)
                          (glEnableVertexAttribArray (of_nat attrib_idx)
                             (BufferObject_bind vbo w))))))
      else Inr w)"
  by pat_completeness auto
termination
  by (relation "measure (\<lambda>(_, vertex_descriptor, attrib_idx, _).
        attrib_count vertex_descriptor - attrib_idx)") auto

declare Mesh_vbo_loop_ptr.simps [simp del]
declare Mesh_vbo_loop_container.simps [simp del]
declare Mesh_attrib_loop.simps [simp del]

text \<open>Lines 236 to 240 and 307 to 311: the error flag is read and reported.\<close>

definition report_construction_error :: "world \<Rightarrow> world" where
  "report_construction_error w =
     (let (err, w') = glGetError w
      in if err \<noteq> GL_NO_ERROR
         then w'\<lparr>cerr := cerr w' @ [Mesh_Construction_Error err]\<rparr>
         else w')"

text \<open>
  Lines 174 to 241: the constructor from data pointers and byte sizes. The
  members are initialised in the order of their declaration, so the index buffer
  is created first.
\<close>

definition Mesh_ctor_ptr ::
  "byte list list \<Rightarrow> size_t list \<Rightarrow> byte list \<Rightarrow> GLsizeiptr \<Rightarrow> VertexLayout
     \<Rightarrow> GLenum option \<Rightarrow> GLenum option \<Rightarrow> GLenum option \<Rightarrow> world
     \<Rightarrow> error + (Mesh \<times> world)" where
  "Mesh_ctor_ptr vertex_data vertex_data_byte_sizes index_data index_data_byte_size
       vertex_descriptor indices_type_arg usage_arg primitive_type_arg w =
     (let indices_type = default_arg GL_UNSIGNED_INT indices_type_arg;
          usage = default_arg GL_STATIC_DRAW usage_arg;
          primitive_type = default_arg GL_TRIANGLES primitive_type_arg;
          (ibo, w1) = BufferObject_new GL_ELEMENT_ARRAY_BUFFER index_data
                        index_data_byte_size usage w;
          this = \<lparr>m_vbos = [], m_ibo = ibo, m_va_handle = 0,
                  m_vertex_descriptor = vertex_descriptor, m_indices_cnt = 0,
                  m_index_type = indices_type, m_usage = usage,
                  m_primitive_type = primitive_type\<rparr>
      in case Mesh_vbo_loop_ptr vertex_data vertex_data_byte_sizes usage 0 [] w1 of
           Inl e \<Rightarrow> Inl e
         | Inr (vbos, w2) \<Rightarrow>
            (let (va_handle, w3) = glGenVertexArrays w2;
                 w4 = glBindVertexArray va_handle w3;
                 w5 = BufferObject_bind ibo w4
             in case Mesh_attrib_loop vbos vertex_descriptor 0 w5 of
                  Inl e \<Rightarrow> Inl e
                | Inr w6 \<Rightarrow>
                   (let w7 = glBindVertexArray 0 w6;
                        w8 = glBindBuffer GL_ARRAY_BUFFER 0 w7;
                        w9 = glBindBuffer GL_ELEMENT_ARRAY_BUFFER 0 w8;
                        indices_cnt =
                          (if m_index_type this = GL_UNSIGNED_INT
                           then to_GLuint (sdiv_GLsizeiptr index_data_byte_size 4)
                           else if m_index_type this = GL_UNSIGNED_SHORT
                           then to_GLuint (sdiv_GLsizeiptr index_data_byte_size 2)
                           else if m_index_type this = GL_UNSIGNED_BYTE
                           then to_GLuint (sdiv_GLsizeiptr index_data_byte_size 1)
                           else m_indices_cnt this)
                    in Inr (this\<lparr>m_vbos := vbos, m_va_handle := va_handle,
                                  m_indices_cnt := indices_cnt\<rparr>,
                            report_construction_error w9))))"

text \<open>
  Lines 243 to 312: the constructor from containers. It does not reset the
  element-array binding, and it computes the index count from a byte size that
  it first narrows to a \<^verbatim>\<open>GLuint\<close>.
\<close>

definition Mesh_ctor_container ::
  "container list \<Rightarrow> container \<Rightarrow> VertexLayout
     \<Rightarrow> GLenum option \<Rightarrow> GLenum option \<Rightarrow> GLenum option \<Rightarrow> world
     \<Rightarrow> error + (Mesh \<times> world)" where
  "Mesh_ctor_container vertex_data index_data vertex_descriptor
       indices_type_arg usage_arg primitive_type_arg w =
     (let indices_type = default_arg GL_UNSIGNED_INT indices_type_arg;
          usage = default_arg GL_STATIC_DRAW usage_arg;
          primitive_type = default_arg GL_TRIANGLES primitive_type_arg;
          (ibo, w1) = BufferObject_new_container GL_ELEMENT_ARRAY_BUFFER index_data usage w;
          this = \<lparr>m_vbos = [], m_ibo = ibo, m_va_handle = 0,
                  m_vertex_descriptor = vertex_descriptor, m_indices_cnt = 0,
                  m_index_type = indices_type, m_usage = usage,
                  m_primitive_type = primitive_type\<rparr>
      in case Mesh_vbo_loop_container vertex_data (m_usage this) 0 [] w1 of
           Inl e \<Rightarrow> Inl e
         | Inr (vbos, w2) \<Rightarrow>
            (let (va_handle, w3) = glGenVertexArrays w2;
                 w4 = glBindVertexArray va_handle w3;
                 w5 = BufferObject_bind ibo w4
             in case Mesh_attrib_loop vbos vertex_descriptor 0 w5 of
                  Inl e \<Rightarrow> Inl e
                | Inr w6 \<Rightarrow>
                   (let w7 = glBindVertexArray 0 w6;
                        w8 = glBindBuffer GL_ARRAY_BUFFER 0 w7;
                        vi_size = to_GLuint (c_size index_data * c_sizeof index_data);
                        indices_cnt =
                          (if m_index_type this = GL_UNSIGNED_INT then vi_size div 4
                           else if m_index_type this = GL_UNSIGNED_SHORT then vi_size div 2
                           else if m_index_type this = GL_UNSIGNED_BYTE then vi_size div 1
                           else m_indices_cnt this)
                    in Inr (this\<lparr>m_vbos := vbos, m_va_handle := va_handle,
                                  m_indices_cnt := indices_cnt\<rparr>,
                            report_construction_error w8))))"

subsection \<open>Drawing and accessors\<close>

definition bindVertexArray :: "Mesh \<Rightarrow> world \<Rightarrow> world" where
  "bindVertexArray this w = glBindVertexArray (m_va_handle this) w"

text \<open>
  Lines 112 to 117. The member function is not \<^verbatim>\<open>const\<close>, so the model returns
  the object with the context.
\<close>

definition draw :: "Mesh \<Rightarrow> GLsizei option \<Rightarrow> world \<Rightarrow> Mesh \<times> world" where
  "draw this instance_cnt_arg w =
     (let instance_cnt = default_arg 1 instance_cnt_arg;
          w1 = glBindVertexArray (m_va_handle this) w;
          w2 = glDrawElementsInstanced (m_primitive_type this) (m_indices_cnt this)
                 (m_index_type this) nullptr instance_cnt w1;
          w3 = glBindVertexArray 0 w2
      in (this, w3))"

definition getVertexLayout :: "Mesh \<Rightarrow> VertexLayout" where
  "getVertexLayout this = m_vertex_descriptor this"

definition getIndicesCount :: "Mesh \<Rightarrow> GLuint" where
  "getIndicesCount this = m_indices_cnt this"

definition getIndexType :: "Mesh \<Rightarrow> GLenum" where
  "getIndexType this = m_index_type this"

definition getPrimitiveType :: "Mesh \<Rightarrow> GLenum" where
  "getPrimitiveType this = m_primitive_type this"

definition getVertexBufferByteSize :: "Mesh \<Rightarrow> size_t \<Rightarrow> GLsizeiptr" where
  "getVertexBufferByteSize this vbo_idx =
     (if unat vbo_idx < length (m_vbos this)
      then BufferObject_getByteSize (m_vbos this ! unat vbo_idx)
      else 0)"

definition getIndexBufferByteSize :: "Mesh \<Rightarrow> GLsizeiptr" where
  "getIndexBufferByteSize this = BufferObject_getByteSize (m_ibo this)"

definition getVbo :: "Mesh \<Rightarrow> BufferObject list" where
  "getVbo this = m_vbos this"

definition getIbo :: "Mesh \<Rightarrow> BufferObject" where
  "getIbo this = m_ibo this"

subsection \<open>Partial updates\<close>

text \<open>
  Lines 314 to 339. The two overloads of each operation differ in how the byte
  size is found; the template overloads carry the suffix \<open>_container\<close>.
\<close>

definition bufferVertexSubData_container ::
  "Mesh \<Rightarrow> size_t \<Rightarrow> container \<Rightarrow> GLsizeiptr \<Rightarrow> world \<Rightarrow> Mesh \<times> world" where
  "bufferVertexSubData_container this vbo_idx vertices byte_offset w =
     (if unat vbo_idx < length (m_vbos this)
      then (this, BufferObject_bufferSubData_container (m_vbos this ! unat vbo_idx)
                    vertices byte_offset w)
      else (this, w))"

definition bufferVertexSubData ::
  "Mesh \<Rightarrow> size_t \<Rightarrow> byte list \<Rightarrow> GLsizeiptr \<Rightarrow> GLsizeiptr \<Rightarrow> world \<Rightarrow> Mesh \<times> world" where
  "bufferVertexSubData this idx data byte_size byte_offset w =
     (if unat idx < length (m_vbos this)
      then (this, BufferObject_bufferSubData (m_vbos this ! unat idx)
                    data byte_size byte_offset w)
      else (this, w))"

definition bufferIndexSubData_container ::
  "Mesh \<Rightarrow> container \<Rightarrow> GLsizeiptr \<Rightarrow> world \<Rightarrow> Mesh \<times> world" where
  "bufferIndexSubData_container this indices byte_offset w =
     (this, BufferObject_bufferSubData_container (m_ibo this) indices byte_offset w)"

definition bufferIndexSubData ::
  "Mesh \<Rightarrow> byte list \<Rightarrow> GLsizeiptr \<Rightarrow> GLsizeiptr \<Rightarrow> world \<Rightarrow> Mesh \<times> world" where
  "bufferIndexSubData this data byte_size byte_offset w =
     (this, BufferObject_bufferSubData (m_ibo this) data byte_size byte_offset w)"


section \<open>Notions the properties are stated with\<close>

text \<open>
  The element size of an index type in the words of the spec: 1, 2 and 4 bytes
  for 8-, 16- and 32-bit unsigned integers; these are the divisors in the
  \<^verbatim>\<open>switch\<close> of both constructors. The spec gives no size for another
  enumerant, which has size 0 here.
\<close>

definition element_size :: "GLenum \<Rightarrow> int" where
  "element_size index_type =
     (if index_type = GL_UNSIGNED_BYTE then 1
      else if index_type = GL_UNSIGNED_SHORT then 2
      else if index_type = GL_UNSIGNED_INT then 4
      else 0)"

text \<open>
  What the vertex array \<open>h\<close> records for attribute \<open>i\<close>, and in particular the
  buffer the attribute reads from.
\<close>

definition attrib_wiring :: "world \<Rightarrow> GLuint \<Rightarrow> GLuint \<Rightarrow> attrib_pointer option" where
  "attrib_wiring w h i =
     (case gl_vertex_arrays w h of None \<Rightarrow> None | Some va \<Rightarrow> va_pointers va i)"

definition attrib_source :: "world \<Rightarrow> GLuint \<Rightarrow> GLuint \<Rightarrow> GLuint option" where
  "attrib_source w h i = map_option ap_buffer (attrib_wiring w h i)"

text \<open>The structural properties of a mesh: layout, counts and handles.\<close>

definition owned_buffer_handles :: "Mesh \<Rightarrow> GLuint set" where
  "owned_buffer_handles this =
     insert (bo_handle (m_ibo this)) (bo_handle ` set (m_vbos this))"

definition structural_fields ::
  "Mesh \<Rightarrow> GLuint \<times> GLenum \<times> GLenum \<times> VertexLayout \<times> GLuint \<times> GLuint set" where
  "structural_fields this =
     (m_indices_cnt this, m_index_type this, m_primitive_type this,
      m_vertex_descriptor this, m_va_handle this, owned_buffer_handles this)"

text \<open>
  The member functions a caller can invoke on a constructed mesh and that reach
  the graphics context. The accessors are \<^verbatim>\<open>const\<close> and only read the object.
\<close>

datatype mesh_call =
    Call_bindVertexArray
  | Call_draw "GLsizei option"
  | Call_bufferVertexSubData_container size_t container GLsizeiptr
  | Call_bufferVertexSubData size_t "byte list" GLsizeiptr GLsizeiptr
  | Call_bufferIndexSubData_container container GLsizeiptr
  | Call_bufferIndexSubData "byte list" GLsizeiptr GLsizeiptr

fun Mesh_call :: "mesh_call \<Rightarrow> Mesh \<times> world \<Rightarrow> Mesh \<times> world" where
  "Mesh_call Call_bindVertexArray (this, w) = (this, bindVertexArray this w)"
| "Mesh_call (Call_draw n) (this, w) = draw this n w"
| "Mesh_call (Call_bufferVertexSubData_container i c off) (this, w) =
     bufferVertexSubData_container this i c off w"
| "Mesh_call (Call_bufferVertexSubData i d n off) (this, w) =
     bufferVertexSubData this i d n off w"
| "Mesh_call (Call_bufferIndexSubData_container c off) (this, w) =
     bufferIndexSubData_container this c off w"
| "Mesh_call (Call_bufferIndexSubData d n off) (this, w) =
     bufferIndexSubData this d n off w"

fun Mesh_calls :: "mesh_call list \<Rightarrow> Mesh \<times> world \<Rightarrow> Mesh \<times> world" where
  "Mesh_calls [] s = s"
| "Mesh_calls (c # cs) s = Mesh_calls cs (Mesh_call c s)"

text \<open>
  What the loop over the attributes asks the vertex array to record for
  attribute \<open>i\<close>: the format of the attribute, the stride the loop selects, and
  the buffer object at position \<open>i\<close> of the vertex buffers as the source.
\<close>

definition expected_pointer :: "VertexLayout \<Rightarrow> BufferObject list \<Rightarrow> nat \<Rightarrow> attrib_pointer" where
  "expected_pointer vertex_descriptor vbos i =
     \<lparr>ap_size = size_attr (attributes vertex_descriptor ! i),
      ap_type = type_attr (attributes vertex_descriptor ! i),
      ap_normalized = normalized_attr (attributes vertex_descriptor ! i),
      ap_stride = (if length (strides vertex_descriptor) = 1
                   then hd (strides vertex_descriptor)
                   else strides vertex_descriptor ! i),
      ap_pointer = offset_attr (attributes vertex_descriptor ! i),
      ap_buffer = bo_handle (vbos ! i)\<rparr>"

subsection \<open>Example data\<close>

text \<open>
  A context in which nothing has been created yet, and the unit quad of the
  spec's first scenario: two attributes (three floats at offset 0, two floats at
  offset 12) with one shared stride of 20 bytes, four vertices of 20 bytes, six
  32-bit indices.
\<close>

definition fresh_context :: world where
  "fresh_context =
     \<lparr>gl_next_name = 1, gl_buffers = Map.empty,
      gl_vertex_arrays = [0 \<mapsto> empty_vertex_array],
      gl_vertex_array_binding = 0, gl_array_buffer_binding = 0,
      gl_error = GL_NO_ERROR, gl_calls = [], cerr = []\<rparr>"

definition quad_layout :: VertexLayout where
  "quad_layout =
     \<lparr>attributes =
        [\<lparr>size_attr = 3, type_attr = 0x1406, normalized_attr = 0, offset_attr = 0\<rparr>,
         \<lparr>size_attr = 2, type_attr = 0x1406, normalized_attr = 0, offset_attr = 12\<rparr>],
      strides = [20]\<rparr>"

definition quad_vertices :: container where
  "quad_vertices = \<lparr>c_size = 4, c_sizeof = 20, c_bytes = replicate 80 0\<rparr>"

definition quad_indices :: container where
  "quad_indices = \<lparr>c_size = 6, c_sizeof = 4, c_bytes = replicate 24 0\<rparr>"

text \<open>A layout with one attribute and no stride at all.\<close>

definition no_stride_layout :: VertexLayout where
  "no_stride_layout =
     \<lparr>attributes =
        [\<lparr>size_attr = 3, type_attr = 0x1406, normalized_attr = 0, offset_attr = 0\<rparr>],
      strides = []\<rparr>"

text \<open>
  The quad built from containers in the fresh context, with two vertex buffers
  (one for each attribute), and all default arguments.
\<close>

definition quad_construction :: "error + (Mesh \<times> world)" where
  "quad_construction =
     Mesh_ctor_container [quad_vertices, quad_vertices] quad_indices quad_layout
       None None None fresh_context"

text \<open>
  The quad built from pointers with 32-bit indices and an index byte size of 5,
  which is not a multiple of 4.
\<close>

definition five_byte_construction :: "error + (Mesh \<times> world)" where
  "five_byte_construction =
     Mesh_ctor_ptr [replicate 80 0, replicate 80 0] [80, 80] [0, 1, 2, 3, 4] 5 quad_layout
       None None None fresh_context"

section \<open>Frame lemmas for the graphics context\<close>

lemma set_error_fields [simp]:
  "gl_calls (set_error e w) = gl_calls w"
  "gl_vertex_array_binding (set_error e w) = gl_vertex_array_binding w"
  "gl_array_buffer_binding (set_error e w) = gl_array_buffer_binding w"
  "gl_vertex_arrays (set_error e w) = gl_vertex_arrays w"
  "gl_buffers (set_error e w) = gl_buffers w"
  "gl_next_name (set_error e w) = gl_next_name w"
  by (simp_all add: set_error_def)

lemma log_call_fields [simp]:
  "gl_calls (log_call c w) = gl_calls w @ [c]"
  "gl_vertex_array_binding (log_call c w) = gl_vertex_array_binding w"
  "gl_array_buffer_binding (log_call c w) = gl_array_buffer_binding w"
  "gl_vertex_arrays (log_call c w) = gl_vertex_arrays w"
  "gl_buffers (log_call c w) = gl_buffers w"
  "gl_next_name (log_call c w) = gl_next_name w"
  "gl_error (log_call c w) = gl_error w"
  by (simp_all add: log_call_def)

lemma update_bound_vertex_array_fields [simp]:
  "gl_calls (update_bound_vertex_array f w) = gl_calls w"
  "gl_vertex_array_binding (update_bound_vertex_array f w) = gl_vertex_array_binding w"
  "gl_array_buffer_binding (update_bound_vertex_array f w) = gl_array_buffer_binding w"
  "gl_buffers (update_bound_vertex_array f w) = gl_buffers w"
  "gl_next_name (update_bound_vertex_array f w) = gl_next_name w"
  by (simp_all add: update_bound_vertex_array_def split: option.splits)

lemma update_bound_vertex_array_arrays:
  "gl_vertex_arrays (update_bound_vertex_array f w) =
     (case gl_vertex_arrays w (gl_vertex_array_binding w) of
        None \<Rightarrow> gl_vertex_arrays w
      | Some va \<Rightarrow> (gl_vertex_arrays w)(gl_vertex_array_binding w \<mapsto> f va))"
  by (simp add: update_bound_vertex_array_def split: option.splits)

lemma glBindVertexArray_fields [simp]:
  "gl_calls (glBindVertexArray h w) = gl_calls w @ [BindVertexArray h]"
  "gl_array_buffer_binding (glBindVertexArray h w) = gl_array_buffer_binding w"
  "gl_vertex_arrays (glBindVertexArray h w) = gl_vertex_arrays w"
  "gl_buffers (glBindVertexArray h w) = gl_buffers w"
  "gl_next_name (glBindVertexArray h w) = gl_next_name w"
  by (simp_all add: glBindVertexArray_def Let_def split: option.splits)

lemma glBindVertexArray_zero [simp]:
  "gl_vertex_array_binding (glBindVertexArray 0 w) = 0"
  by (simp add: glBindVertexArray_def Let_def)

lemma glBindVertexArray_existing:
  "gl_vertex_arrays w h = Some va \<Longrightarrow> gl_vertex_array_binding (glBindVertexArray h w) = h"
  by (simp add: glBindVertexArray_def Let_def)

lemma glDrawElementsInstanced_fields [simp]:
  "gl_calls (glDrawElementsInstanced mode cnt ty ptr n w) =
     gl_calls w @ [DrawElementsInstanced mode cnt ty ptr n]"
  "gl_vertex_array_binding (glDrawElementsInstanced mode cnt ty ptr n w) = gl_vertex_array_binding w"
  "gl_array_buffer_binding (glDrawElementsInstanced mode cnt ty ptr n w) = gl_array_buffer_binding w"
  "gl_vertex_arrays (glDrawElementsInstanced mode cnt ty ptr n w) = gl_vertex_arrays w"
  "gl_buffers (glDrawElementsInstanced mode cnt ty ptr n w) = gl_buffers w"
  by (simp_all add: glDrawElementsInstanced_def)

lemma glBindBuffer_fields [simp]:
  "gl_calls (glBindBuffer target h w) = gl_calls w @ [BindBuffer target h]"
  "gl_vertex_array_binding (glBindBuffer target h w) = gl_vertex_array_binding w"
  "gl_buffers (glBindBuffer target h w) = gl_buffers w"
  "gl_next_name (glBindBuffer target h w) = gl_next_name w"
  by (simp_all add: glBindBuffer_def Let_def)

lemma glBindBuffer_array [simp]:
  "gl_array_buffer_binding (glBindBuffer GL_ARRAY_BUFFER h w) = h"
  "gl_vertex_arrays (glBindBuffer GL_ARRAY_BUFFER h w) = gl_vertex_arrays w"
  by (simp_all add: glBindBuffer_def Let_def)

lemma glBindBuffer_element [simp]:
  "gl_array_buffer_binding (glBindBuffer GL_ELEMENT_ARRAY_BUFFER h w) = gl_array_buffer_binding w"
  by (simp add: glBindBuffer_def Let_def GL_ELEMENT_ARRAY_BUFFER_def GL_ARRAY_BUFFER_def)

lemma glEnableVertexAttribArray_fields [simp]:
  "gl_calls (glEnableVertexAttribArray i w) = gl_calls w @ [EnableVertexAttribArray i]"
  "gl_vertex_array_binding (glEnableVertexAttribArray i w) = gl_vertex_array_binding w"
  "gl_array_buffer_binding (glEnableVertexAttribArray i w) = gl_array_buffer_binding w"
  "gl_buffers (glEnableVertexAttribArray i w) = gl_buffers w"
  by (simp_all add: glEnableVertexAttribArray_def)

lemma glVertexAttribPointer_fields [simp]:
  "gl_calls (glVertexAttribPointer i sz ty norm stride ptr w) =
     gl_calls w @ [VertexAttribPointer i sz ty norm stride ptr]"
  "gl_vertex_array_binding (glVertexAttribPointer i sz ty norm stride ptr w) = gl_vertex_array_binding w"
  "gl_array_buffer_binding (glVertexAttribPointer i sz ty norm stride ptr w) = gl_array_buffer_binding w"
  "gl_buffers (glVertexAttribPointer i sz ty norm stride ptr w) = gl_buffers w"
  by (simp_all add: glVertexAttribPointer_def Let_def)

lemma report_construction_error_fields [simp]:
  "gl_vertex_array_binding (report_construction_error w) = gl_vertex_array_binding w"
  "gl_array_buffer_binding (report_construction_error w) = gl_array_buffer_binding w"
  "gl_vertex_arrays (report_construction_error w) = gl_vertex_arrays w"
  "gl_buffers (report_construction_error w) = gl_buffers w"
  by (simp_all add: report_construction_error_def glGetError_def Let_def)

section \<open>Construction: shape of a successful result\<close>

lemma Mesh_ctor_ptr_InrE:
  assumes "Mesh_ctor_ptr vertex_data sizes index_data index_size layout ita ua pa w = Inr (m, w')"
  obtains vbos w2 w6 where
    "Mesh_vbo_loop_ptr vertex_data sizes (default_arg GL_STATIC_DRAW ua) 0 []
       (snd (BufferObject_new GL_ELEMENT_ARRAY_BUFFER index_data index_size
          (default_arg GL_STATIC_DRAW ua) w)) = Inr (vbos, w2)"
    and "Mesh_attrib_loop vbos layout 0
       (BufferObject_bind
          (fst (BufferObject_new GL_ELEMENT_ARRAY_BUFFER index_data index_size
             (default_arg GL_STATIC_DRAW ua) w))
          (glBindVertexArray (fst (glGenVertexArrays w2)) (snd (glGenVertexArrays w2)))) = Inr w6"
    and "m = \<lparr>m_vbos = vbos,
              m_ibo = fst (BufferObject_new GL_ELEMENT_ARRAY_BUFFER index_data index_size
                        (default_arg GL_STATIC_DRAW ua) w),
              m_va_handle = fst (glGenVertexArrays w2),
              m_vertex_descriptor = layout,
              m_indices_cnt =
                (if default_arg GL_UNSIGNED_INT ita = GL_UNSIGNED_INT
                 then to_GLuint (sdiv_GLsizeiptr index_size 4)
                 else if default_arg GL_UNSIGNED_INT ita = GL_UNSIGNED_SHORT
                 then to_GLuint (sdiv_GLsizeiptr index_size 2)
                 else if default_arg GL_UNSIGNED_INT ita = GL_UNSIGNED_BYTE
                 then to_GLuint (sdiv_GLsizeiptr index_size 1)
                 else 0),
              m_index_type = default_arg GL_UNSIGNED_INT ita,
              m_usage = default_arg GL_STATIC_DRAW ua,
              m_primitive_type = default_arg GL_TRIANGLES pa\<rparr>"
    and "w' = report_construction_error
               (glBindBuffer GL_ELEMENT_ARRAY_BUFFER 0
                  (glBindBuffer GL_ARRAY_BUFFER 0 (glBindVertexArray 0 w6)))"
  using assms
  unfolding Mesh_ctor_ptr_def Let_def
  by (auto split: sum.splits prod.splits if_splits)

lemma Mesh_ctor_container_InrE:
  assumes "Mesh_ctor_container vertex_data index_data layout ita ua pa w = Inr (m, w')"
  obtains vbos w2 w6 where
    "Mesh_vbo_loop_container vertex_data (default_arg GL_STATIC_DRAW ua) 0 []
       (snd (BufferObject_new_container GL_ELEMENT_ARRAY_BUFFER index_data
          (default_arg GL_STATIC_DRAW ua) w)) = Inr (vbos, w2)"
    and "Mesh_attrib_loop vbos layout 0
       (BufferObject_bind
          (fst (BufferObject_new_container GL_ELEMENT_ARRAY_BUFFER index_data
             (default_arg GL_STATIC_DRAW ua) w))
          (glBindVertexArray (fst (glGenVertexArrays w2)) (snd (glGenVertexArrays w2)))) = Inr w6"
    and "m = \<lparr>m_vbos = vbos,
              m_ibo = fst (BufferObject_new_container GL_ELEMENT_ARRAY_BUFFER index_data
                        (default_arg GL_STATIC_DRAW ua) w),
              m_va_handle = fst (glGenVertexArrays w2),
              m_vertex_descriptor = layout,
              m_indices_cnt =
                (if default_arg GL_UNSIGNED_INT ita = GL_UNSIGNED_INT
                 then to_GLuint (c_size index_data * c_sizeof index_data) div 4
                 else if default_arg GL_UNSIGNED_INT ita = GL_UNSIGNED_SHORT
                 then to_GLuint (c_size index_data * c_sizeof index_data) div 2
                 else if default_arg GL_UNSIGNED_INT ita = GL_UNSIGNED_BYTE
                 then to_GLuint (c_size index_data * c_sizeof index_data) div 1
                 else 0),
              m_index_type = default_arg GL_UNSIGNED_INT ita,
              m_usage = default_arg GL_STATIC_DRAW ua,
              m_primitive_type = default_arg GL_TRIANGLES pa\<rparr>"
    and "w' = report_construction_error
               (glBindBuffer GL_ARRAY_BUFFER 0 (glBindVertexArray 0 w6))"
  using assms
  unfolding Mesh_ctor_container_def Let_def
  by (auto split: sum.splits prod.splits if_splits)

section \<open>The loops of the constructors\<close>

lemma Mesh_vbo_loop_ptr_succeeds:
  "length vd \<le> length sizes \<Longrightarrow> length vd < 2 ^ 32 \<Longrightarrow>
     \<exists>r. Mesh_vbo_loop_ptr vd sizes usage i vbos w = Inr r"
proof (induction "length vd - i" arbitrary: i vbos w)
  case 0
  then show ?case by (subst Mesh_vbo_loop_ptr.simps) simp
next
  case (Suc n)
  then have lt: "i < length vd" and at: "vector_at sizes i = Inr (sizes ! i)"
    and nowrap: "Suc i \<noteq> 2 ^ 32"
    by (simp_all add: vector_at_def)
  from Suc have "n = length vd - Suc i" by simp
  from Suc.hyps(1) [OF this Suc.prems] show ?case
    using lt at nowrap by (subst Mesh_vbo_loop_ptr.simps) simp
qed

lemma Mesh_vbo_loop_container_succeeds:
  "length vd < 2 ^ 32 \<Longrightarrow> \<exists>r. Mesh_vbo_loop_container vd usage i vbos w = Inr r"
proof (induction "length vd - i" arbitrary: i vbos w)
  case 0
  then show ?case by (subst Mesh_vbo_loop_container.simps) simp
next
  case (Suc n)
  then have lt: "i < length vd" and nowrap: "Suc i \<noteq> 2 ^ 32"
    by simp_all
  from Suc have "n = length vd - Suc i" by simp
  from Suc.hyps(1) [OF this Suc.prems] show ?case
    using lt nowrap by (subst Mesh_vbo_loop_container.simps) simp
qed

lemma Mesh_vbo_loop_ptr_result:
  "Mesh_vbo_loop_ptr vd sizes usage i vbos w = Inr (vbos', w') \<Longrightarrow>
     map bo_byte_size vbos' = map bo_byte_size vbos @ take (length vd - i) (drop i sizes) \<and>
     length vbos' = length vbos + (length vd - i) \<and>
     (list_all (\<lambda>bo. bo_target bo = GL_ARRAY_BUFFER) vbos \<longrightarrow>
        list_all (\<lambda>bo. bo_target bo = GL_ARRAY_BUFFER) vbos')"
proof (induction "length vd - i" arbitrary: i vbos w)
  case 0
  then show ?case by (subst (asm) Mesh_vbo_loop_ptr.simps) simp
next
  case (Suc n)
  then have lt: "i < length vd" by simp
  let ?new = "BufferObject_new GL_ARRAY_BUFFER (vd ! i) (sizes ! i) usage w"
  from Suc.prems lt have at: "i < length sizes"
    by (subst (asm) Mesh_vbo_loop_ptr.simps) (auto simp: vector_at_def split: if_splits)
  with Suc.prems lt have rec:
    "Mesh_vbo_loop_ptr vd sizes usage (Suc i) (vbos @ [fst ?new]) (snd ?new) = Inr (vbos', w')"
    by (subst (asm) Mesh_vbo_loop_ptr.simps) (auto simp: vector_at_def split: if_splits)
  from Suc have "n = length vd - Suc i" by simp
  note ih = Suc.hyps(1) [OF this rec]
  have size: "bo_byte_size (fst ?new) = sizes ! i" and tgt: "bo_target (fst ?new) = GL_ARRAY_BUFFER"
    by (simp_all add: BufferObject_new_def Let_def)
  have "take (length vd - i) (drop i sizes) = sizes ! i # take (length vd - Suc i) (drop (Suc i) sizes)"
    using lt at by (metis Cons_nth_drop_Suc Suc_diff_Suc take_Suc_Cons)
  with ih size tgt lt show ?case by simp
qed

lemma Mesh_vbo_loop_container_result:
  "Mesh_vbo_loop_container vd usage i vbos w = Inr (vbos', w') \<Longrightarrow>
     map bo_byte_size vbos' =
       map bo_byte_size vbos @ map (\<lambda>c. c_size c * c_sizeof c) (drop i vd) \<and>
     length vbos' = length vbos + (length vd - i) \<and>
     (list_all (\<lambda>bo. bo_target bo = GL_ARRAY_BUFFER) vbos \<longrightarrow>
        list_all (\<lambda>bo. bo_target bo = GL_ARRAY_BUFFER) vbos')"
proof (induction "length vd - i" arbitrary: i vbos w)
  case 0
  then show ?case by (subst (asm) Mesh_vbo_loop_container.simps) simp
next
  case (Suc n)
  then have lt: "i < length vd" by simp
  let ?new = "BufferObject_new_container GL_ARRAY_BUFFER (vd ! i) usage w"
  from Suc.prems lt have rec:
    "Mesh_vbo_loop_container vd usage (Suc i) (vbos @ [fst ?new]) (snd ?new) = Inr (vbos', w')"
    by (subst (asm) Mesh_vbo_loop_container.simps) (auto split: if_splits)
  from Suc have "n = length vd - Suc i" by simp
  note ih = Suc.hyps(1) [OF this rec]
  have size: "bo_byte_size (fst ?new) = c_size (vd ! i) * c_sizeof (vd ! i)"
    and tgt: "bo_target (fst ?new) = GL_ARRAY_BUFFER"
    by (simp_all add: BufferObject_new_container_def BufferObject_new_def Let_def)
  have "drop i vd = vd ! i # drop (Suc i) vd"
    using lt by (simp add: Cons_nth_drop_Suc)
  with ih size tgt lt show ?case by simp
qed

lemma attrib_count_le: "attrib_count vd \<le> length (attributes vd)"
proof -
  have "attrib_count vd = (length (attributes vd) mod 2 ^ 64) mod 2 ^ 32"
    by (simp add: attrib_count_def to_GLuint_def unsigned_ucast_eq unat_of_nat take_bit_eq_mod)
  also have "\<dots> \<le> length (attributes vd)"
    by (meson le_trans mod_less_eq_dividend)
  finally show ?thesis .
qed

lemma attrib_count_bound: "attrib_count vd < 2 ^ 32"
  using unsigned_less [of "to_GLuint (of_nat (length (attributes vd)))", where 'a = nat]
  by (simp add: attrib_count_def)

lemma Mesh_attrib_loop_succeeds:
  assumes "length (attributes vd) \<le> length vbos"
    and "length (strides vd) \<noteq> 1 \<Longrightarrow> length (attributes vd) \<le> length (strides vd)"
  shows "\<exists>w'. Mesh_attrib_loop vbos vd i w = Inr w'"
proof (induction "attrib_count vd - i" arbitrary: i w)
  case 0
  then show ?case by (subst Mesh_attrib_loop.simps) simp
next
  case (Suc n)
  then have lt: "i < attrib_count vd" by simp
  with attrib_count_le [of vd] have i: "i < length (attributes vd)" by simp
  have stride: "\<exists>s. (if length (strides vd) = 1 then vector_front (strides vd)
                      else vector_at (strides vd) i) = Inr s"
  proof (cases "length (strides vd) = 1")
    case True
    then show ?thesis by (cases "strides vd") (simp_all add: vector_front_def)
  next
    case False
    with assms(2) i show ?thesis by (simp add: vector_at_def)
  qed
  then obtain s where s: "(if length (strides vd) = 1 then vector_front (strides vd)
                      else vector_at (strides vd) i) = Inr s" ..
  from Suc have "n = attrib_count vd - Suc i" by simp
  from Suc.hyps(1) [OF this] show ?case
    using lt i assms(1) s by (subst Mesh_attrib_loop.simps) (simp add: vector_at_def)
qed

lemma Mesh_ctor_container_succeeds:
  assumes "length vd < 2 ^ 32" and "length (attributes layout) \<le> length vd"
    and "length (strides layout) \<noteq> 1 \<Longrightarrow> length (attributes layout) \<le> length (strides layout)"
  shows "\<exists>m w'. Mesh_ctor_container vd idx layout ita ua pa w = Inr (m, w')"
proof -
  let ?u = "default_arg GL_STATIC_DRAW ua"
  let ?w1 = "snd (BufferObject_new_container GL_ELEMENT_ARRAY_BUFFER idx ?u w)"
  from Mesh_vbo_loop_container_succeeds [OF assms(1)]
  obtain vbos w2 where vb: "Mesh_vbo_loop_container vd ?u 0 [] ?w1 = Inr (vbos, w2)"
    by (metis surj_pair)
  from Mesh_vbo_loop_container_result [OF vb] have "length vbos = length vd" by simp
  with assms(2) have "length (attributes layout) \<le> length vbos" by simp
  from Mesh_attrib_loop_succeeds [OF this assms(3)]
  obtain w6 where "Mesh_attrib_loop vbos layout 0
       (BufferObject_bind (fst (BufferObject_new_container GL_ELEMENT_ARRAY_BUFFER idx ?u w))
          (glBindVertexArray (fst (glGenVertexArrays w2)) (snd (glGenVertexArrays w2)))) = Inr w6"
    by blast
  with vb show ?thesis
    by (simp add: Mesh_ctor_container_def Let_def case_prod_beta)
qed

lemma Mesh_ctor_ptr_succeeds:
  assumes "length vd < 2 ^ 32" and "length vd \<le> length sizes"
    and "length (attributes layout) \<le> length vd"
    and "length (strides layout) \<noteq> 1 \<Longrightarrow> length (attributes layout) \<le> length (strides layout)"
  shows "\<exists>m w'. Mesh_ctor_ptr vd sizes idata isz layout ita ua pa w = Inr (m, w')"
proof -
  let ?u = "default_arg GL_STATIC_DRAW ua"
  let ?w1 = "snd (BufferObject_new GL_ELEMENT_ARRAY_BUFFER idata isz ?u w)"
  from Mesh_vbo_loop_ptr_succeeds [OF assms(2) assms(1)]
  obtain vbos w2 where vb: "Mesh_vbo_loop_ptr vd sizes ?u 0 [] ?w1 = Inr (vbos, w2)"
    by (metis surj_pair)
  from Mesh_vbo_loop_ptr_result [OF vb] have "length vbos = length vd" by simp
  with assms(3) have "length (attributes layout) \<le> length vbos" by simp
  from Mesh_attrib_loop_succeeds [OF this assms(4)]
  obtain w6 where "Mesh_attrib_loop vbos layout 0
       (BufferObject_bind (fst (BufferObject_new GL_ELEMENT_ARRAY_BUFFER idata isz ?u w))
          (glBindVertexArray (fst (glGenVertexArrays w2)) (snd (glGenVertexArrays w2)))) = Inr w6"
    by blast
  with vb show ?thesis
    by (simp add: Mesh_ctor_ptr_def Let_def case_prod_beta)
qed

section \<open>Drawing\<close>

text \<open>
  C6. \<^verbatim>\<open>draw(instance_count)\<close> calls three entry points and no other, in this
  order: it binds the vertex array of the mesh, issues one indexed instanced
  draw with the stored primitive type, index count and index type, a null index
  pointer and the given instance count, and binds vertex array zero.
\<close>

theorem draw_call_sequence:
  "gl_calls (snd (draw this (Some instance_count) w)) =
     gl_calls w @
       [BindVertexArray (m_va_handle this),
        DrawElementsInstanced (getPrimitiveType this) (getIndicesCount this)
          (getIndexType this) nullptr instance_count,
        BindVertexArray 0]"
  by (simp add: draw_def Let_def default_arg_def getPrimitiveType_def getIndicesCount_def
      getIndexType_def)

section \<open>Construction: stored values\<close>

lemma quad_lengths:
  "length (attributes quad_layout) = 2" "length (strides quad_layout) = 1"
  by (simp_all add: quad_layout_def)

lemma not_index_enum:
  "(0x1406::GLenum) \<noteq> GL_UNSIGNED_INT" "(0x1406::GLenum) \<noteq> GL_UNSIGNED_SHORT"
  "(0x1406::GLenum) \<noteq> GL_UNSIGNED_BYTE"
  by (simp_all add: GL_UNSIGNED_INT_def GL_UNSIGNED_SHORT_def GL_UNSIGNED_BYTE_def)

text \<open>
  C10. A mesh constructed with an index type that is none of
  \<^verbatim>\<open>GL_UNSIGNED_INT\<close>, \<^verbatim>\<open>GL_UNSIGNED_SHORT\<close> and \<^verbatim>\<open>GL_UNSIGNED_BYTE\<close> reports an
  index count of zero, whatever the byte size of the index buffer: the
  \<^verbatim>\<open>switch\<close> has no branch for it and the counter starts at zero. This holds
  for both constructors.
\<close>

theorem unknown_index_type_zero_count:
  assumes "index_type \<noteq> GL_UNSIGNED_INT" and "index_type \<noteq> GL_UNSIGNED_SHORT"
    and "index_type \<noteq> GL_UNSIGNED_BYTE"
  shows "(Mesh_ctor_ptr vd sizes idata isz layout (Some index_type) ua pa w = Inr (m, w')
            \<longrightarrow> getIndicesCount m = 0) \<and>
         (Mesh_ctor_container cvd cidx layout (Some index_type) ua pa w = Inr (m, w')
            \<longrightarrow> getIndicesCount m = 0)"
proof (intro conjI impI)
  assume "Mesh_ctor_ptr vd sizes idata isz layout (Some index_type) ua pa w = Inr (m, w')"
  then show "getIndicesCount m = 0"
    using assms by (elim Mesh_ctor_ptr_InrE) (simp add: getIndicesCount_def default_arg_def)
next
  assume "Mesh_ctor_container cvd cidx layout (Some index_type) ua pa w = Inr (m, w')"
  then show "getIndicesCount m = 0"
    using assms by (elim Mesh_ctor_container_InrE) (simp add: getIndicesCount_def default_arg_def)
qed

theorem unknown_index_type_zero_count_witness:
  "(\<exists>m w'. Mesh_ctor_ptr [replicate 80 0, replicate 80 0] [80, 80] (replicate 24 0) 24
              quad_layout (Some 0x1406) None None fresh_context = Inr (m, w')
            \<and> getIndicesCount m = 0) \<and>
   (\<exists>m w'. Mesh_ctor_container [quad_vertices, quad_vertices] quad_indices
              quad_layout (Some 0x1406) None None fresh_context = Inr (m, w')
            \<and> getIndicesCount m = 0)"
proof -
  have "\<exists>m w'. Mesh_ctor_ptr [replicate 80 0, replicate 80 0] [80, 80] (replicate 24 0) 24
              quad_layout (Some 0x1406) None None fresh_context = Inr (m, w')"
    by (rule Mesh_ctor_ptr_succeeds) (simp_all add: quad_lengths)
  then obtain m w' where a: "Mesh_ctor_ptr [replicate 80 0, replicate 80 0] [80, 80] (replicate 24 0) 24
              quad_layout (Some 0x1406) None None fresh_context = Inr (m, w')"
    by blast
  have "\<exists>m2 w2. Mesh_ctor_container [quad_vertices, quad_vertices] quad_indices
              quad_layout (Some 0x1406) None None fresh_context = Inr (m2, w2)"
    by (rule Mesh_ctor_container_succeeds) (simp_all add: quad_lengths)
  then obtain m2 w2 where b: "Mesh_ctor_container [quad_vertices, quad_vertices] quad_indices
              quad_layout (Some 0x1406) None None fresh_context = Inr (m2, w2)"
    by blast
  from unknown_index_type_zero_count [OF not_index_enum, THEN conjunct1, rule_format, OF a]
    unknown_index_type_zero_count [OF not_index_enum, THEN conjunct2, rule_format, OF b] a b
  show ?thesis by blast
qed

text \<open>
  C9. After construction \<^verbatim>\<open>getVertexLayout\<close>, \<^verbatim>\<open>getIndexType\<close> and
  \<^verbatim>\<open>getPrimitiveType\<close> return the values given to the constructor. An argument
  that is left out takes its default: \<^verbatim>\<open>GL_UNSIGNED_INT\<close> for the index type,
  \<^verbatim>\<open>GL_STATIC_DRAW\<close> for the usage, \<^verbatim>\<open>GL_TRIANGLES\<close> for the primitive type,
  and 1 for the instance count of \<^verbatim>\<open>draw\<close>.
\<close>

theorem accessors_return_constructor_values:
  "(Mesh_ctor_ptr vd sizes idata isz layout ita ua pa w = Inr (m, w') \<longrightarrow>
      getVertexLayout m = layout \<and>
      getIndexType m = (case ita of None \<Rightarrow> GL_UNSIGNED_INT | Some t \<Rightarrow> t) \<and>
      m_usage m = (case ua of None \<Rightarrow> GL_STATIC_DRAW | Some u \<Rightarrow> u) \<and>
      getPrimitiveType m = (case pa of None \<Rightarrow> GL_TRIANGLES | Some p \<Rightarrow> p)) \<and>
   (Mesh_ctor_container cvd cidx layout ita ua pa w = Inr (m, w') \<longrightarrow>
      getVertexLayout m = layout \<and>
      getIndexType m = (case ita of None \<Rightarrow> GL_UNSIGNED_INT | Some t \<Rightarrow> t) \<and>
      m_usage m = (case ua of None \<Rightarrow> GL_STATIC_DRAW | Some u \<Rightarrow> u) \<and>
      getPrimitiveType m = (case pa of None \<Rightarrow> GL_TRIANGLES | Some p \<Rightarrow> p)) \<and>
   draw this None w = draw this (Some 1) w"
proof (intro conjI impI)
  assume a: "Mesh_ctor_ptr vd sizes idata isz layout ita ua pa w = Inr (m, w')"
  from a show "getVertexLayout m = layout"
    by (elim Mesh_ctor_ptr_InrE) (simp add: getVertexLayout_def)
  from a show "getIndexType m = (case ita of None \<Rightarrow> GL_UNSIGNED_INT | Some t \<Rightarrow> t)"
    by (elim Mesh_ctor_ptr_InrE) (simp add: getIndexType_def default_arg_def)
  from a show "m_usage m = (case ua of None \<Rightarrow> GL_STATIC_DRAW | Some u \<Rightarrow> u)"
    by (elim Mesh_ctor_ptr_InrE) (simp add: default_arg_def)
  from a show "getPrimitiveType m = (case pa of None \<Rightarrow> GL_TRIANGLES | Some p \<Rightarrow> p)"
    by (elim Mesh_ctor_ptr_InrE) (simp add: getPrimitiveType_def default_arg_def)
next
  assume a: "Mesh_ctor_container cvd cidx layout ita ua pa w = Inr (m, w')"
  from a show "getVertexLayout m = layout"
    by (elim Mesh_ctor_container_InrE) (simp add: getVertexLayout_def)
  from a show "getIndexType m = (case ita of None \<Rightarrow> GL_UNSIGNED_INT | Some t \<Rightarrow> t)"
    by (elim Mesh_ctor_container_InrE) (simp add: getIndexType_def default_arg_def)
  from a show "m_usage m = (case ua of None \<Rightarrow> GL_STATIC_DRAW | Some u \<Rightarrow> u)"
    by (elim Mesh_ctor_container_InrE) (simp add: default_arg_def)
  from a show "getPrimitiveType m = (case pa of None \<Rightarrow> GL_TRIANGLES | Some p \<Rightarrow> p)"
    by (elim Mesh_ctor_container_InrE) (simp add: getPrimitiveType_def default_arg_def)
next
  show "draw this None w = draw this (Some 1) w"
    by (simp add: draw_def default_arg_def)
qed

theorem accessors_return_constructor_values_witness:
  "(\<exists>m w'. Mesh_ctor_ptr [replicate 80 0, replicate 80 0] [80, 80] (replicate 24 0) 12
              quad_layout (Some GL_UNSIGNED_SHORT) None (Some 1) fresh_context = Inr (m, w')
            \<and> getVertexLayout m = quad_layout \<and> getIndexType m = GL_UNSIGNED_SHORT
            \<and> m_usage m = GL_STATIC_DRAW \<and> getPrimitiveType m = 1) \<and>
   (\<exists>m w'. Mesh_ctor_container [quad_vertices, quad_vertices] quad_indices
              quad_layout None None None fresh_context = Inr (m, w')
            \<and> getVertexLayout m = quad_layout \<and> getIndexType m = GL_UNSIGNED_INT
            \<and> m_usage m = GL_STATIC_DRAW \<and> getPrimitiveType m = GL_TRIANGLES)"
proof -
  have "\<exists>m w'. Mesh_ctor_ptr [replicate 80 0, replicate 80 0] [80, 80] (replicate 24 0) 12
              quad_layout (Some GL_UNSIGNED_SHORT) None (Some 1) fresh_context = Inr (m, w')"
    by (rule Mesh_ctor_ptr_succeeds) (simp_all add: quad_lengths)
  then obtain m w' where a: "Mesh_ctor_ptr [replicate 80 0, replicate 80 0] [80, 80] (replicate 24 0) 12
              quad_layout (Some GL_UNSIGNED_SHORT) None (Some 1) fresh_context = Inr (m, w')"
    by blast
  have "\<exists>m2 w2. Mesh_ctor_container [quad_vertices, quad_vertices] quad_indices
              quad_layout None None None fresh_context = Inr (m2, w2)"
    by (rule Mesh_ctor_container_succeeds) (simp_all add: quad_lengths)
  then obtain m2 w2 where b: "Mesh_ctor_container [quad_vertices, quad_vertices] quad_indices
              quad_layout None None None fresh_context = Inr (m2, w2)"
    by blast
  from accessors_return_constructor_values [THEN conjunct1, rule_format, OF a]
    accessors_return_constructor_values [THEN conjunct2, THEN conjunct1, rule_format, OF b] a b
  show ?thesis by auto
qed

section \<open>Vertex buffer sizes\<close>

lemma Mesh_ctor_ptr_vbos:
  assumes "Mesh_ctor_ptr vd sizes idata isz layout ita ua pa w = Inr (m, w')"
  shows "length (m_vbos m) = length vd \<and>
         map bo_byte_size (m_vbos m) = take (length vd) sizes \<and>
         list_all (\<lambda>bo. bo_target bo = GL_ARRAY_BUFFER) (m_vbos m)"
proof -
  from assms obtain w1 w2 where
    "Mesh_vbo_loop_ptr vd sizes (default_arg GL_STATIC_DRAW ua) 0 [] w1 = Inr (m_vbos m, w2)"
    by (elim Mesh_ctor_ptr_InrE) simp
  from Mesh_vbo_loop_ptr_result [OF this] show ?thesis by simp
qed

lemma Mesh_ctor_container_vbos:
  assumes "Mesh_ctor_container vd idx layout ita ua pa w = Inr (m, w')"
  shows "length (m_vbos m) = length vd \<and>
         map bo_byte_size (m_vbos m) = map (\<lambda>c. c_size c * c_sizeof c) vd \<and>
         list_all (\<lambda>bo. bo_target bo = GL_ARRAY_BUFFER) (m_vbos m)"
proof -
  from assms obtain w1 w2 where
    "Mesh_vbo_loop_container vd (default_arg GL_STATIC_DRAW ua) 0 [] w1 = Inr (m_vbos m, w2)"
    by (elim Mesh_ctor_container_InrE) simp
  from Mesh_vbo_loop_container_result [OF this] show ?thesis by simp
qed

text \<open>
  C7. \<^verbatim>\<open>getVertexBufferByteSize(i)\<close> returns 0 when \<open>i\<close> is not below the number
  of vertex buffers, for every mesh. After construction the number of vertex
  buffers is the number of vertex data sources, and for \<open>i\<close> below it the
  accessor returns the byte size given for source \<open>i\<close>: the entry \<open>i\<close> of the
  byte sizes for the constructor from pointers, length times element size of
  container \<open>i\<close> for the constructor from containers.
\<close>

theorem vertex_buffer_byte_size:
  "(length (getVbo this) \<le> unat i \<longrightarrow> getVertexBufferByteSize this i = 0) \<and>
   (Mesh_ctor_ptr vd sizes idata isz layout ita ua pa w = Inr (m, w') \<longrightarrow>
      length (getVbo m) = length vd \<and>
      (unat i < length vd \<longrightarrow> getVertexBufferByteSize m i = sizes ! unat i) \<and>
      (length vd \<le> unat i \<longrightarrow> getVertexBufferByteSize m i = 0)) \<and>
   (Mesh_ctor_container cvd cidx layout ita ua pa w = Inr (m, w') \<longrightarrow>
      length (getVbo m) = length cvd \<and>
      (unat i < length cvd \<longrightarrow>
         getVertexBufferByteSize m i = c_size (cvd ! unat i) * c_sizeof (cvd ! unat i)) \<and>
      (length cvd \<le> unat i \<longrightarrow> getVertexBufferByteSize m i = 0))"
proof (intro conjI impI)
  assume "length (getVbo this) \<le> unat i"
  then show "getVertexBufferByteSize this i = 0"
    by (simp add: getVertexBufferByteSize_def getVbo_def)
next
  assume a: "Mesh_ctor_ptr vd sizes idata isz layout ita ua pa w = Inr (m, w')"
  from Mesh_ctor_ptr_vbos [OF a]
  have v: "length (m_vbos m) = length vd"
    "map bo_byte_size (m_vbos m) = take (length vd) sizes"
    by simp_all
  from v(1) show "length (getVbo m) = length vd" by (simp add: getVbo_def)
  { assume lt: "unat i < length vd"
    with v(1) have "bo_byte_size (m_vbos m ! unat i) = map bo_byte_size (m_vbos m) ! unat i"
      by simp
    also have "\<dots> = sizes ! unat i" using lt by (simp add: v(2))
    finally show "getVertexBufferByteSize m i = sizes ! unat i"
      using lt v(1) by (simp add: getVertexBufferByteSize_def BufferObject_getByteSize_def) }
  { assume "length vd \<le> unat i"
    with v(1) show "getVertexBufferByteSize m i = 0"
      by (simp add: getVertexBufferByteSize_def) }
next
  assume a: "Mesh_ctor_container cvd cidx layout ita ua pa w = Inr (m, w')"
  from Mesh_ctor_container_vbos [OF a]
  have v: "length (m_vbos m) = length cvd"
    "map bo_byte_size (m_vbos m) = map (\<lambda>c. c_size c * c_sizeof c) cvd"
    by simp_all
  from v(1) show "length (getVbo m) = length cvd" by (simp add: getVbo_def)
  { assume lt: "unat i < length cvd"
    with v(1) have "bo_byte_size (m_vbos m ! unat i) = map bo_byte_size (m_vbos m) ! unat i"
      by simp
    also have "\<dots> = c_size (cvd ! unat i) * c_sizeof (cvd ! unat i)"
      using lt by (simp add: v(2))
    finally show "getVertexBufferByteSize m i = c_size (cvd ! unat i) * c_sizeof (cvd ! unat i)"
      using lt v(1) by (simp add: getVertexBufferByteSize_def BufferObject_getByteSize_def) }
  { assume "length cvd \<le> unat i"
    with v(1) show "getVertexBufferByteSize m i = 0"
      by (simp add: getVertexBufferByteSize_def) }
qed

theorem vertex_buffer_byte_size_witness:
  "(\<exists>m w'. Mesh_ctor_ptr [replicate 80 0, replicate 60 0] [80, 60] (replicate 24 0) 24
              quad_layout None None None fresh_context = Inr (m, w')
            \<and> length (getVbo m) = 2
            \<and> getVertexBufferByteSize m 1 = 60 \<and> getVertexBufferByteSize m 2 = 0) \<and>
   (\<exists>m w'. Mesh_ctor_container [quad_vertices, quad_vertices] quad_indices
              quad_layout None None None fresh_context = Inr (m, w')
            \<and> length (getVbo m) \<le> unat (5 :: size_t)
            \<and> getVertexBufferByteSize m 0 = 80 \<and> getVertexBufferByteSize m 5 = 0)"
proof -
  have "\<exists>m w'. Mesh_ctor_ptr [replicate 80 0, replicate 60 0] [80, 60] (replicate 24 0) 24
              quad_layout None None None fresh_context = Inr (m, w')"
    by (rule Mesh_ctor_ptr_succeeds) (simp_all add: quad_lengths)
  then obtain m w' where a: "Mesh_ctor_ptr [replicate 80 0, replicate 60 0] [80, 60]
       (replicate 24 0) 24 quad_layout None None None fresh_context = Inr (m, w')"
    by blast
  have "\<exists>m w'. Mesh_ctor_container [quad_vertices, quad_vertices] quad_indices
              quad_layout None None None fresh_context = Inr (m, w')"
    by (rule Mesh_ctor_container_succeeds) (simp_all add: quad_lengths)
  then obtain m2 w2 where b: "Mesh_ctor_container [quad_vertices, quad_vertices] quad_indices
              quad_layout None None None fresh_context = Inr (m2, w2)"
    by blast
  from vertex_buffer_byte_size [where i = 1, THEN conjunct2, THEN conjunct1, rule_format, OF a]
  have a1: "length (getVbo m) = 2" "getVertexBufferByteSize m 1 = 60" by simp_all
  from vertex_buffer_byte_size [where i = 2, THEN conjunct2, THEN conjunct1, rule_format, OF a]
  have a2: "getVertexBufferByteSize m 2 = 0" by simp
  from vertex_buffer_byte_size [where i = 0, THEN conjunct2, THEN conjunct2, rule_format, OF b]
  have b1: "length (getVbo m2) = 2" "getVertexBufferByteSize m2 0 = 80"
    by (simp_all add: quad_vertices_def)
  from b1 have b0: "length (getVbo m2) \<le> unat (5 :: size_t)" by simp
  from vertex_buffer_byte_size [where i = 5, THEN conjunct1, rule_format, OF b0]
  have b2: "getVertexBufferByteSize m2 5 = 0" .
  from a a1 a2 b b0 b1 b2 show ?thesis by blast
qed

section \<open>Partial updates and structure\<close>

text \<open>
  C5. With an index that is not below the number of vertex buffers, both
  overloads of \<^verbatim>\<open>bufferVertexSubData\<close> return with the mesh and the whole
  context as they were: no buffer store changes, the error flag is not set,
  nothing is written to the diagnostic stream, and no graphics call is made.
\<close>

theorem bufferVertexSubData_out_of_range:
  "length (getVbo this) \<le> unat vbo_idx \<Longrightarrow>
     bufferVertexSubData this vbo_idx data byte_size byte_offset w = (this, w) \<and>
     bufferVertexSubData_container this vbo_idx vertices byte_offset w = (this, w)"
  by (simp add: bufferVertexSubData_def bufferVertexSubData_container_def getVbo_def)

theorem bufferVertexSubData_out_of_range_witness:
  "\<exists>m w'. quad_construction = Inr (m, w') \<and> length (getVbo m) \<le> unat (5 :: size_t) \<and>
     bufferVertexSubData m 5 (replicate 20 1) 20 0 w' = (m, w') \<and>
     bufferVertexSubData_container m 5 quad_vertices 0 w' = (m, w')"
proof -
  have "\<exists>m w'. quad_construction = Inr (m, w')"
    unfolding quad_construction_def
    by (rule Mesh_ctor_container_succeeds) (simp_all add: quad_lengths)
  then obtain m w' where b: "quad_construction = Inr (m, w')"
    by blast
  then have len: "length (getVbo m) \<le> unat (5 :: size_t)"
    using Mesh_ctor_container_vbos [of "[quad_vertices, quad_vertices]"]
    by (simp add: quad_construction_def getVbo_def)
  from bufferVertexSubData_out_of_range [OF len] b len show ?thesis by blast
qed

lemma Mesh_call_object: "fst (Mesh_call c s) = fst s"
  by (cases c; cases s)
    (simp_all add: draw_def Let_def bufferVertexSubData_def bufferVertexSubData_container_def
      bufferIndexSubData_def bufferIndexSubData_container_def)

lemma Mesh_calls_object: "fst (Mesh_calls cs s) = fst s"
  by (induction cs arbitrary: s) (simp_all add: Mesh_call_object)

text \<open>
  C8. No overload of \<^verbatim>\<open>bufferVertexSubData\<close> or \<^verbatim>\<open>bufferIndexSubData\<close> changes
  the index count, the index type, the primitive type, the stored layout, the
  vertex-array handle or the set of owned buffer handles, and neither does any
  sequence of calls of the member functions of a constructed mesh.
\<close>

theorem structural_fields_never_change:
  "structural_fields (fst (bufferVertexSubData this i data n off w)) = structural_fields this \<and>
   structural_fields (fst (bufferVertexSubData_container this i c off w)) = structural_fields this \<and>
   structural_fields (fst (bufferIndexSubData this data n off w)) = structural_fields this \<and>
   structural_fields (fst (bufferIndexSubData_container this c off w)) = structural_fields this \<and>
   structural_fields (fst (Mesh_calls cs (this, w))) = structural_fields this"
  by (simp add: Mesh_calls_object bufferVertexSubData_def bufferVertexSubData_container_def
      bufferIndexSubData_def bufferIndexSubData_container_def)

section \<open>Bindings after drawing\<close>

lemma draw_array_buffer_binding:
  "gl_array_buffer_binding (snd (draw this n w)) = gl_array_buffer_binding w"
  by (simp add: draw_def Let_def)

lemma Mesh_ctor_array_buffer_binding:
  "Mesh_ctor_ptr vd sizes idata isz layout ita ua pa w = Inr (m, w') \<Longrightarrow>
     gl_array_buffer_binding w' = 0"
  "Mesh_ctor_container cvd cidx layout ita ua pa w = Inr (m, w') \<Longrightarrow>
     gl_array_buffer_binding w' = 0"
  by (elim Mesh_ctor_ptr_InrE Mesh_ctor_container_InrE; simp)+

lemma Mesh_vbo_loop_container_handles:
  "Mesh_vbo_loop_container vd usage i vbos w = Inr (vbos', w') \<Longrightarrow>
     map bo_handle vbos' =
       map bo_handle vbos @ map (\<lambda>k. gl_next_name w + of_nat k) [0..<length vd - i] \<and>
     gl_next_name w' = gl_next_name w + of_nat (length vd - i)"
proof (induction "length vd - i" arbitrary: i vbos w)
  case 0
  then show ?case by (subst (asm) Mesh_vbo_loop_container.simps) simp
next
  case (Suc n)
  then have lt: "i < length vd" by simp
  let ?new = "BufferObject_new_container GL_ARRAY_BUFFER (vd ! i) usage w"
  from Suc.prems lt have rec:
    "Mesh_vbo_loop_container vd usage (Suc i) (vbos @ [fst ?new]) (snd ?new) = Inr (vbos', w')"
    by (subst (asm) Mesh_vbo_loop_container.simps) (auto split: if_splits)
  from Suc have n: "n = length vd - Suc i" by simp
  note ih = Suc.hyps(1) [OF n rec]
  have h: "bo_handle (fst ?new) = gl_next_name w"
    and nx: "gl_next_name (snd ?new) = gl_next_name w + 1"
    by (simp_all add: BufferObject_new_container_def BufferObject_new_def Let_def)
  have len: "length vd - i = Suc n" using Suc.hyps(2) by simp
  have "[0..<Suc n] = 0 # map Suc [0..<n]"
    by (simp add: upt_conv_Cons map_Suc_upt del: upt_Suc)
  then have "map (\<lambda>k. gl_next_name w + of_nat k) [0..<Suc n] =
         gl_next_name w # map (\<lambda>k. gl_next_name w + 1 + of_nat k) [0..<n]"
    by (simp add: comp_def ac_simps del: upt_Suc)
  with ih h nx len n show ?case by (simp add: ac_simps del: upt_Suc)
qed

lemma quad_construction_Inr: "\<exists>m w'. quad_construction = Inr (m, w')"
  unfolding quad_construction_def
  by (rule Mesh_ctor_container_succeeds) (simp_all add: quad_lengths)

lemma quad_construction_handles:
  assumes "quad_construction = Inr (m, w')"
  shows "map bo_handle (m_vbos m) = [2, 3]"
proof -
  from assms obtain w2 where
    "Mesh_vbo_loop_container [quad_vertices, quad_vertices] (default_arg GL_STATIC_DRAW None) 0 []
       (snd (BufferObject_new_container GL_ELEMENT_ARRAY_BUFFER quad_indices
          (default_arg GL_STATIC_DRAW None) fresh_context)) = Inr (m_vbos m, w2)"
    unfolding quad_construction_def by (elim Mesh_ctor_container_InrE) simp
  from Mesh_vbo_loop_container_handles [OF this] show ?thesis
    by (simp add: BufferObject_new_container_def BufferObject_new_def Let_def fresh_context_def
        upt_rec [of 0] upt_rec [of 1] numeral_2_eq_2)
qed

text \<open>
  C4, as the code has it. After \<^verbatim>\<open>draw\<close>, with any instance count, the
  vertex-array binding is zero and the array-buffer binding is the one that was
  in force before the call: \<^verbatim>\<open>draw\<close> does not write it. Both constructors
  leave the array-buffer binding at zero, so it is zero after a \<^verbatim>\<open>draw\<close> that
  follows construction directly.
\<close>

theorem draw_bindings_after:
  "gl_vertex_array_binding (snd (draw this n w)) = 0 \<and>
   gl_array_buffer_binding (snd (draw this n w)) = gl_array_buffer_binding w \<and>
   (Mesh_ctor_ptr vd sizes idata isz layout ita ua pa w0 = Inr (m, w') \<longrightarrow>
      gl_array_buffer_binding (snd (draw m n w')) = 0) \<and>
   (Mesh_ctor_container cvd cidx layout ita ua pa w0 = Inr (m, w') \<longrightarrow>
      gl_array_buffer_binding (snd (draw m n w')) = 0)"
  by (simp add: draw_def Let_def Mesh_ctor_array_buffer_binding)

theorem draw_bindings_after_witness:
  "(\<exists>m w'. Mesh_ctor_ptr [replicate 80 0, replicate 80 0] [80, 80] (replicate 24 0) 24
              quad_layout None None None fresh_context = Inr (m, w') \<and>
     gl_vertex_array_binding (snd (draw m (Some 3) w')) = 0 \<and>
     gl_array_buffer_binding (snd (draw m (Some 3) w')) = 0) \<and>
   (\<exists>m w'. quad_construction = Inr (m, w') \<and>
     gl_vertex_array_binding (snd (draw m (Some 1) w')) = 0 \<and>
     gl_array_buffer_binding (snd (draw m (Some 1) w')) = 0)"
proof -
  have "\<exists>m w'. Mesh_ctor_ptr [replicate 80 0, replicate 80 0] [80, 80] (replicate 24 0) 24
              quad_layout None None None fresh_context = Inr (m, w')"
    by (rule Mesh_ctor_ptr_succeeds) (simp_all add: quad_lengths)
  then obtain m w' where a: "Mesh_ctor_ptr [replicate 80 0, replicate 80 0] [80, 80]
       (replicate 24 0) 24 quad_layout None None None fresh_context = Inr (m, w')"
    by blast
  from quad_construction_Inr obtain m2 w2 where q: "quad_construction = Inr (m2, w2)" by blast
  then have c: "Mesh_ctor_container [quad_vertices, quad_vertices] quad_indices quad_layout
       None None None fresh_context = Inr (m2, w2)"
    by (simp add: quad_construction_def)
  from draw_bindings_after [of m "Some 3" w', THEN conjunct1]
    draw_bindings_after [where n = "Some 3", THEN conjunct2, THEN conjunct2, THEN conjunct1,
      rule_format, OF a]
    draw_bindings_after [of m2 "Some 1" w2, THEN conjunct1]
    draw_bindings_after [where n = "Some 1", THEN conjunct2, THEN conjunct2, THEN conjunct2,
      rule_format, OF c] a q
  show ?thesis by blast
qed

text \<open>
  C4 as stated fails: a caller binds the first vertex buffer of the quad and
  draws one instance; the array-buffer binding is then still that buffer, not
  zero.
\<close>

theorem draw_array_buffer_binding_counterexample:
  "\<not> isl quad_construction \<and>
   gl_array_buffer_binding
     (snd (draw (fst (projr quad_construction)) (Some 1)
        (BufferObject_bind (getVbo (fst (projr quad_construction)) ! 0)
           (snd (projr quad_construction))))) \<noteq> 0"
proof -
  from quad_construction_Inr obtain m w' where q: "quad_construction = Inr (m, w')" by blast
  then have c: "Mesh_ctor_container [quad_vertices, quad_vertices] quad_indices quad_layout
       None None None fresh_context = Inr (m, w')"
    by (simp add: quad_construction_def)
  from quad_construction_handles [OF q] have h: "bo_handle (m_vbos m ! 0) = 2"
    by (metis nth_Cons_0 length_Cons nth_map zero_less_Suc length_map)
  from Mesh_ctor_container_vbos [OF c] have "bo_target (m_vbos m ! 0) = GL_ARRAY_BUFFER"
    by (simp add: list_all_length)
  with h show ?thesis
    by (simp add: q draw_array_buffer_binding BufferObject_bind_def getVbo_def)
qed

section \<open>Bounds of the loop over the attributes\<close>

lemma Mesh_vbo_loop_container_error:
  "Mesh_vbo_loop_container vd usage i vbos w \<noteq> Inl Out_Of_Bounds"
proof (induction "length vd - i" arbitrary: i vbos w)
  case 0
  then show ?case by (subst Mesh_vbo_loop_container.simps) simp
next
  case (Suc n)
  then have "n = length vd - Suc i" by simp
  from Suc.hyps(1) [OF this] show ?case
    by (subst Mesh_vbo_loop_container.simps) simp
qed

lemma Mesh_vbo_loop_ptr_error:
  "length vd \<le> length sizes \<Longrightarrow> Mesh_vbo_loop_ptr vd sizes usage i vbos w \<noteq> Inl Out_Of_Bounds"
proof (induction "length vd - i" arbitrary: i vbos w)
  case 0
  then show ?case by (subst Mesh_vbo_loop_ptr.simps) simp
next
  case (Suc n)
  then have "n = length vd - Suc i" and "i < length sizes" by simp_all
  with Suc.hyps(1) [OF this(1) Suc.prems] show ?case
    by (subst Mesh_vbo_loop_ptr.simps) (simp add: vector_at_def)
qed

lemma Mesh_attrib_loop_no_stride:
  "Mesh_attrib_loop vbos no_stride_layout 0 w = Inl Out_Of_Bounds"
  by (subst Mesh_attrib_loop.simps)
    (simp add: no_stride_layout_def attrib_count_def to_GLuint_def vector_at_def)

text \<open>
  C3, as the code has it. When there are at least as many vertex buffers as
  attributes and, unless the layout has exactly one stride, at least as many
  strides as attributes, the loop over the attributes reads the vertex buffers
  and the strides only inside their bounds: it runs to its end, from any
  starting context, and neither constructor stops with an access out of bounds
  (for the constructor from pointers, when there is a byte size for every
  vertex data pointer).
\<close>

theorem attribute_loop_in_bounds:
  "(length (attributes layout) \<le> length vbos \<longrightarrow>
    (length (strides layout) \<noteq> 1 \<longrightarrow> length (attributes layout) \<le> length (strides layout)) \<longrightarrow>
      (\<exists>w'. Mesh_attrib_loop vbos layout 0 w = Inr w')) \<and>
   (length (attributes layout) \<le> length cvd \<longrightarrow>
    (length (strides layout) \<noteq> 1 \<longrightarrow> length (attributes layout) \<le> length (strides layout)) \<longrightarrow>
      Mesh_ctor_container cvd cidx layout ita ua pa w \<noteq> Inl Out_Of_Bounds) \<and>
   (length (attributes layout) \<le> length vd \<longrightarrow> length vd \<le> length sizes \<longrightarrow>
    (length (strides layout) \<noteq> 1 \<longrightarrow> length (attributes layout) \<le> length (strides layout)) \<longrightarrow>
      Mesh_ctor_ptr vd sizes idata isz layout ita ua pa w \<noteq> Inl Out_Of_Bounds)"
proof (intro conjI impI)
  assume "length (attributes layout) \<le> length vbos"
    and "length (strides layout) \<noteq> 1 \<longrightarrow> length (attributes layout) \<le> length (strides layout)"
  then show "\<exists>w'. Mesh_attrib_loop vbos layout 0 w = Inr w'"
    by (intro Mesh_attrib_loop_succeeds) simp_all
next
  assume a: "length (attributes layout) \<le> length cvd"
    and s: "length (strides layout) \<noteq> 1 \<longrightarrow> length (attributes layout) \<le> length (strides layout)"
  let ?u = "default_arg GL_STATIC_DRAW ua"
  let ?ibo = "BufferObject_new_container GL_ELEMENT_ARRAY_BUFFER cidx ?u w"
  show "Mesh_ctor_container cvd cidx layout ita ua pa w \<noteq> Inl Out_Of_Bounds"
  proof (cases "Mesh_vbo_loop_container cvd ?u 0 [] (snd ?ibo)")
    case (Inl e)
    with Mesh_vbo_loop_container_error [of cvd ?u 0 "[]" "snd ?ibo"] show ?thesis
      by (simp add: Mesh_ctor_container_def Let_def case_prod_beta)
  next
    case (Inr r)
    then obtain vbos w2 where r: "Mesh_vbo_loop_container cvd ?u 0 [] (snd ?ibo) = Inr (vbos, w2)"
      by (cases r) simp
    from Mesh_vbo_loop_container_result [OF r] a have "length (attributes layout) \<le> length vbos"
      by simp
    from Mesh_attrib_loop_succeeds [OF this] s
    obtain w6 where "Mesh_attrib_loop vbos layout 0
       (BufferObject_bind (fst ?ibo)
          (glBindVertexArray (fst (glGenVertexArrays w2)) (snd (glGenVertexArrays w2)))) = Inr w6"
      by blast
    with r show ?thesis
      by (simp add: Mesh_ctor_container_def Let_def case_prod_beta)
  qed
next
  assume a: "length (attributes layout) \<le> length vd" and sz: "length vd \<le> length sizes"
    and s: "length (strides layout) \<noteq> 1 \<longrightarrow> length (attributes layout) \<le> length (strides layout)"
  let ?u = "default_arg GL_STATIC_DRAW ua"
  let ?ibo = "BufferObject_new GL_ELEMENT_ARRAY_BUFFER idata isz ?u w"
  show "Mesh_ctor_ptr vd sizes idata isz layout ita ua pa w \<noteq> Inl Out_Of_Bounds"
  proof (cases "Mesh_vbo_loop_ptr vd sizes ?u 0 [] (snd ?ibo)")
    case (Inl e)
    with Mesh_vbo_loop_ptr_error [OF sz, of ?u 0 "[]" "snd ?ibo"] show ?thesis
      by (simp add: Mesh_ctor_ptr_def Let_def case_prod_beta)
  next
    case (Inr r)
    then obtain vbos w2 where r: "Mesh_vbo_loop_ptr vd sizes ?u 0 [] (snd ?ibo) = Inr (vbos, w2)"
      by (cases r) simp
    from Mesh_vbo_loop_ptr_result [OF r] a have "length (attributes layout) \<le> length vbos"
      by simp
    from Mesh_attrib_loop_succeeds [OF this] s
    obtain w6 where "Mesh_attrib_loop vbos layout 0
       (BufferObject_bind (fst ?ibo)
          (glBindVertexArray (fst (glGenVertexArrays w2)) (snd (glGenVertexArrays w2)))) = Inr w6"
      by blast
    with r show ?thesis
      by (simp add: Mesh_ctor_ptr_def Let_def case_prod_beta)
  qed
qed

theorem attribute_loop_in_bounds_witness:
  "length (attributes quad_layout) \<le> length [quad_vertices, quad_vertices] \<and>
   length (strides quad_layout) = 1 \<and>
   (\<exists>w'. Mesh_attrib_loop
           [\<lparr>bo_target = GL_ARRAY_BUFFER, bo_handle = 2, bo_byte_size = 80\<rparr>,
            \<lparr>bo_target = GL_ARRAY_BUFFER, bo_handle = 3, bo_byte_size = 80\<rparr>]
           quad_layout 0 fresh_context = Inr w') \<and>
   Mesh_ctor_container [quad_vertices, quad_vertices] quad_indices quad_layout
     None None None fresh_context \<noteq> Inl Out_Of_Bounds \<and>
   length [replicate 80 0, replicate 80 (0 :: byte)] \<le> length [80, 80 :: size_t] \<and>
   Mesh_ctor_ptr [replicate 80 0, replicate 80 0] [80, 80] (replicate 24 0) 24 quad_layout
     None None None fresh_context \<noteq> Inl Out_Of_Bounds"
  using attribute_loop_in_bounds [of quad_layout
      "[\<lparr>bo_target = GL_ARRAY_BUFFER, bo_handle = 2, bo_byte_size = 80\<rparr>,
        \<lparr>bo_target = GL_ARRAY_BUFFER, bo_handle = 3, bo_byte_size = 80\<rparr>]" fresh_context
      "[quad_vertices, quad_vertices]" quad_indices None None None
      "[replicate 80 0, replicate 80 0]" "[80, 80]" "replicate 24 0" 24]
  by (simp add: quad_lengths)

text \<open>
  C3 as stated fails for a layout without strides: there is a vertex buffer for
  the one attribute, the layout does not have more than one stride, and the
  loop reads \<^verbatim>\<open>strides[0]\<close> of an empty vector.
\<close>

theorem attribute_loop_counterexample:
  "length (attributes no_stride_layout) \<le> length [quad_vertices] \<and>
   \<not> 1 < length (strides no_stride_layout) \<and>
   Mesh_ctor_container [quad_vertices] quad_indices no_stride_layout
     None None None fresh_context = Inl Out_Of_Bounds"
proof -
  have "\<exists>r. Mesh_vbo_loop_container [quad_vertices] (default_arg GL_STATIC_DRAW None) 0 []
       (snd (BufferObject_new_container GL_ELEMENT_ARRAY_BUFFER quad_indices
          (default_arg GL_STATIC_DRAW None) fresh_context)) = Inr r"
    by (rule Mesh_vbo_loop_container_succeeds) simp
  then have "Mesh_ctor_container [quad_vertices] quad_indices no_stride_layout
     None None None fresh_context = Inl Out_Of_Bounds"
    by (auto simp: Mesh_ctor_container_def Let_def case_prod_beta Mesh_attrib_loop_no_stride)
  then show ?thesis by (simp add: no_stride_layout_def)
qed

section \<open>Wiring of the attributes\<close>

lemma of_nat_GLuint_neq:
  "i < j \<Longrightarrow> j < 2 ^ 32 \<Longrightarrow> (of_nat i :: GLuint) \<noteq> of_nat j"
  by (simp add: word_of_nat_eq_iff take_bit_nat_eq_self)

lemma attrib_count_length:
  "length (attributes vd) < 2 ^ 32 \<Longrightarrow> attrib_count vd = length (attributes vd)"
  by (simp add: attrib_count_def to_GLuint_def unsigned_ucast_eq unat_of_nat take_bit_eq_mod)

lemma attrib_step:
  assumes "gl_vertex_arrays w (gl_vertex_array_binding w) = Some va"
    and "bo_target vbo = GL_ARRAY_BUFFER"
  shows "gl_vertex_array_binding
           (glVertexAttribPointer idx sz ty nm st ptr
              (glEnableVertexAttribArray idx (BufferObject_bind vbo w))) =
         gl_vertex_array_binding w \<and>
         (\<exists>va1. gl_vertex_arrays
                  (glVertexAttribPointer idx sz ty nm st ptr
                     (glEnableVertexAttribArray idx (BufferObject_bind vbo w)))
                  (gl_vertex_array_binding w) = Some va1 \<and>
            va_pointers va1 = (va_pointers va)(idx \<mapsto>
              \<lparr>ap_size = sz, ap_type = ty, ap_normalized = nm, ap_stride = st,
               ap_pointer = ptr, ap_buffer = bo_handle vbo\<rparr>))"
  using assms
  by (simp add: BufferObject_bind_def glEnableVertexAttribArray_def glVertexAttribPointer_def
      glBindBuffer_def update_bound_vertex_array_def log_call_def Let_def)

lemma Mesh_attrib_loop_wiring:
  assumes tg: "list_all (\<lambda>bo. bo_target bo = GL_ARRAY_BUFFER) vbos"
  shows "Mesh_attrib_loop vbos vd i w = Inr w' \<Longrightarrow>
     gl_vertex_arrays w (gl_vertex_array_binding w) = Some va \<Longrightarrow>
     gl_vertex_array_binding w' = gl_vertex_array_binding w \<and>
     (\<exists>va'. gl_vertex_arrays w' (gl_vertex_array_binding w) = Some va' \<and>
        (\<forall>j. i \<le> j \<and> j < attrib_count vd \<longrightarrow>
           j < length vbos \<and> va_pointers va' (of_nat j) = Some (expected_pointer vd vbos j)) \<and>
        (\<forall>j<i. va_pointers va' (of_nat j) = va_pointers va (of_nat j)))"
proof (induction "attrib_count vd - i" arbitrary: i w va)
  case 0
  then show ?case by (subst (asm) Mesh_attrib_loop.simps) auto
next
  case (Suc n)
  then have lt: "i < attrib_count vd" by simp
  with attrib_count_le [of vd] have ai: "i < length (attributes vd)" by simp
  let ?s = "if length (strides vd) = 1 then hd (strides vd) else strides vd ! i"
  let ?a = "attributes vd ! i"
  let ?w1 = "glVertexAttribPointer (of_nat i) (size_attr ?a) (type_attr ?a) (normalized_attr ?a)
               ?s (offset_attr ?a)
               (glEnableVertexAttribArray (of_nat i) (BufferObject_bind (vbos ! i) w))"
  from Suc.prems(1) lt ai have vb: "i < length vbos"
    by (subst (asm) Mesh_attrib_loop.simps)
      (auto simp: vector_at_def vector_front_def split: if_splits sum.splits list.splits)
  from Suc.prems(1) lt ai vb have rec: "Mesh_attrib_loop vbos vd (Suc i) ?w1 = Inr w'"
    by (subst (asm) Mesh_attrib_loop.simps)
      (auto simp: vector_at_def vector_front_def split: if_splits sum.splits list.splits)
  from tg vb have "bo_target (vbos ! i) = GL_ARRAY_BUFFER" by (simp add: list_all_length)
  from attrib_step [OF Suc.prems(2) this]
  obtain va1 where b1: "gl_vertex_array_binding ?w1 = gl_vertex_array_binding w"
    and v1: "gl_vertex_arrays ?w1 (gl_vertex_array_binding w) = Some va1"
    and p1: "va_pointers va1 = (va_pointers va)(of_nat i \<mapsto> expected_pointer vd vbos i)"
    unfolding expected_pointer_def by blast
  from v1 b1 have v1': "gl_vertex_arrays ?w1 (gl_vertex_array_binding ?w1) = Some va1" by simp
  from Suc have n: "n = attrib_count vd - Suc i" by simp
  from Suc.hyps(1) [OF n rec v1'] b1
  obtain va' where b': "gl_vertex_array_binding w' = gl_vertex_array_binding w"
    and v': "gl_vertex_arrays w' (gl_vertex_array_binding w) = Some va'"
    and hi: "\<forall>j. Suc i \<le> j \<and> j < attrib_count vd \<longrightarrow>
           j < length vbos \<and> va_pointers va' (of_nat j) = Some (expected_pointer vd vbos j)"
    and lo: "\<forall>j<Suc i. va_pointers va' (of_nat j) = va_pointers va1 (of_nat j)"
    by auto
  have i32: "i < 2 ^ 32" using lt attrib_count_bound [of vd] by simp
  have "\<forall>j. i \<le> j \<and> j < attrib_count vd \<longrightarrow>
           j < length vbos \<and> va_pointers va' (of_nat j) = Some (expected_pointer vd vbos j)"
  proof (intro allI impI)
    fix j assume j: "i \<le> j \<and> j < attrib_count vd"
    show "j < length vbos \<and> va_pointers va' (of_nat j) = Some (expected_pointer vd vbos j)"
    proof (cases "j = i")
      case True
      with lo p1 vb show ?thesis by simp
    next
      case False
      with j hi show ?thesis by simp
    qed
  qed
  moreover have "\<forall>j<i. va_pointers va' (of_nat j) = va_pointers va (of_nat j)"
  proof (intro allI impI)
    fix j assume j: "j < i"
    then have "(of_nat j :: GLuint) \<noteq> of_nat i" using i32 by (rule of_nat_GLuint_neq)
    with lo j p1 show "va_pointers va' (of_nat j) = va_pointers va (of_nat j)" by simp
  qed
  ultimately show ?case using b' v' by blast
qed

lemma attrib_wiring_frame [simp]:
  "attrib_wiring (report_construction_error w) h k = attrib_wiring w h k"
  "attrib_wiring (glBindVertexArray x w) h k = attrib_wiring w h k"
  "attrib_wiring (glBindBuffer target x w) h k = attrib_wiring w h k"
  by (simp_all add: attrib_wiring_def glBindBuffer_def Let_def update_bound_vertex_array_def
      split: option.splits)

lemma attrib_loop_start:
  assumes "bo_target ibo = GL_ELEMENT_ARRAY_BUFFER"
  shows "gl_vertex_array_binding
           (BufferObject_bind ibo
              (glBindVertexArray (fst (glGenVertexArrays w)) (snd (glGenVertexArrays w)))) =
         fst (glGenVertexArrays w) \<and>
         (\<exists>va. gl_vertex_arrays
                 (BufferObject_bind ibo
                    (glBindVertexArray (fst (glGenVertexArrays w)) (snd (glGenVertexArrays w))))
                 (fst (glGenVertexArrays w)) = Some va)"
  using assms
  by (simp add: BufferObject_bind_def glBindBuffer_def glBindVertexArray_def
      glGenVertexArrays_def update_bound_vertex_array_def log_call_def Let_def
      GL_ELEMENT_ARRAY_BUFFER_def GL_ARRAY_BUFFER_def)

lemma Mesh_ctor_wiring:
  assumes vb: "list_all (\<lambda>bo. bo_target bo = GL_ARRAY_BUFFER) vbos"
    and ib: "bo_target ibo = GL_ELEMENT_ARRAY_BUFFER"
    and lp: "Mesh_attrib_loop vbos layout 0
       (BufferObject_bind ibo
          (glBindVertexArray (fst (glGenVertexArrays w2)) (snd (glGenVertexArrays w2)))) = Inr w6"
    and i: "i < attrib_count layout"
  shows "i < length vbos \<and>
         attrib_wiring w6 (fst (glGenVertexArrays w2)) (of_nat i) =
           Some (expected_pointer layout vbos i)"
proof -
  from attrib_loop_start [OF ib, of w2] obtain va where
    b: "gl_vertex_array_binding (BufferObject_bind ibo
          (glBindVertexArray (fst (glGenVertexArrays w2)) (snd (glGenVertexArrays w2)))) =
        fst (glGenVertexArrays w2)"
    and v: "gl_vertex_arrays (BufferObject_bind ibo
          (glBindVertexArray (fst (glGenVertexArrays w2)) (snd (glGenVertexArrays w2))))
          (fst (glGenVertexArrays w2)) = Some va"
    by blast
  from v b have "gl_vertex_arrays (BufferObject_bind ibo
          (glBindVertexArray (fst (glGenVertexArrays w2)) (snd (glGenVertexArrays w2))))
          (gl_vertex_array_binding (BufferObject_bind ibo
          (glBindVertexArray (fst (glGenVertexArrays w2)) (snd (glGenVertexArrays w2))))) = Some va"
    by simp
  from Mesh_attrib_loop_wiring [OF vb lp this] b i show ?thesis
    by (auto simp: attrib_wiring_def)
qed

lemma Mesh_ctor_ptr_wiring:
  assumes a: "Mesh_ctor_ptr vd sizes idata isz layout ita ua pa w = Inr (m, w')"
    and i: "i < attrib_count layout"
  shows "i < length (m_vbos m) \<and>
        attrib_wiring w' (m_va_handle m) (of_nat i) = Some (expected_pointer layout (m_vbos m) i)"
proof -
  from Mesh_ctor_ptr_vbos [OF a] have tg: "list_all (\<lambda>bo. bo_target bo = GL_ARRAY_BUFFER) (m_vbos m)"
    by simp
  let ?ibo = "fst (BufferObject_new GL_ELEMENT_ARRAY_BUFFER idata isz
                    (default_arg GL_STATIC_DRAW ua) w)"
  have ib: "bo_target ?ibo = GL_ELEMENT_ARRAY_BUFFER"
    by (simp add: BufferObject_new_def Let_def)
  from a obtain w2 w6 where
    lp: "Mesh_attrib_loop (m_vbos m) layout 0
       (BufferObject_bind ?ibo
          (glBindVertexArray (fst (glGenVertexArrays w2)) (snd (glGenVertexArrays w2)))) = Inr w6"
    and h: "m_va_handle m = fst (glGenVertexArrays w2)"
    and w': "w' = report_construction_error
               (glBindBuffer GL_ELEMENT_ARRAY_BUFFER 0
                  (glBindBuffer GL_ARRAY_BUFFER 0 (glBindVertexArray 0 w6)))"
    by (elim Mesh_ctor_ptr_InrE) simp
  from Mesh_ctor_wiring [OF tg ib lp i] h w' show ?thesis by simp
qed

lemma Mesh_ctor_container_wiring:
  assumes a: "Mesh_ctor_container cvd cidx layout ita ua pa w = Inr (m, w')"
    and i: "i < attrib_count layout"
  shows "i < length (m_vbos m) \<and>
        attrib_wiring w' (m_va_handle m) (of_nat i) = Some (expected_pointer layout (m_vbos m) i)"
proof -
  from Mesh_ctor_container_vbos [OF a]
  have tg: "list_all (\<lambda>bo. bo_target bo = GL_ARRAY_BUFFER) (m_vbos m)"
    by simp
  let ?ibo = "fst (BufferObject_new_container GL_ELEMENT_ARRAY_BUFFER cidx
                    (default_arg GL_STATIC_DRAW ua) w)"
  have ib: "bo_target ?ibo = GL_ELEMENT_ARRAY_BUFFER"
    by (simp add: BufferObject_new_container_def BufferObject_new_def Let_def)
  from a obtain w2 w6 where
    lp: "Mesh_attrib_loop (m_vbos m) layout 0
       (BufferObject_bind ?ibo
          (glBindVertexArray (fst (glGenVertexArrays w2)) (snd (glGenVertexArrays w2)))) = Inr w6"
    and h: "m_va_handle m = fst (glGenVertexArrays w2)"
    and w': "w' = report_construction_error
                  (glBindBuffer GL_ARRAY_BUFFER 0 (glBindVertexArray 0 w6))"
    by (elim Mesh_ctor_container_InrE) simp
  from Mesh_ctor_wiring [OF tg ib lp i] h w' show ?thesis by simp
qed

text \<open>
  C2, as the code has it. Construction wires attribute \<open>i\<close> of the vertex array
  to read from the vertex buffer at position \<open>i\<close>, for every attribute the loop
  visits and in both constructors, whether the layout has one shared stride or
  one stride for each attribute. One shared stride only decides the stride that
  is recorded. The loop visits every attribute of a layout with fewer than
  \<open>2 ^ 32\<close> attributes.
\<close>

theorem attribute_reads_from_its_own_buffer:
  "(Mesh_ctor_ptr vd sizes idata isz layout ita ua pa w = Inr (m, w') \<longrightarrow>
      i < attrib_count layout \<longrightarrow>
        i < length (getVbo m) \<and>
        attrib_wiring w' (m_va_handle m) (of_nat i) = Some (expected_pointer layout (getVbo m) i) \<and>
        attrib_source w' (m_va_handle m) (of_nat i) = Some (bo_handle (getVbo m ! i))) \<and>
   (Mesh_ctor_container cvd cidx layout ita ua pa w = Inr (m, w') \<longrightarrow>
      i < attrib_count layout \<longrightarrow>
        i < length (getVbo m) \<and>
        attrib_wiring w' (m_va_handle m) (of_nat i) = Some (expected_pointer layout (getVbo m) i) \<and>
        attrib_source w' (m_va_handle m) (of_nat i) = Some (bo_handle (getVbo m ! i))) \<and>
   (length (attributes layout) < 2 ^ 32 \<longrightarrow> attrib_count layout = length (attributes layout))"
proof (intro conjI impI)
  assume "Mesh_ctor_ptr vd sizes idata isz layout ita ua pa w = Inr (m, w')"
    and "i < attrib_count layout"
  then have r: "i < length (m_vbos m) \<and>
        attrib_wiring w' (m_va_handle m) (of_nat i) = Some (expected_pointer layout (m_vbos m) i)"
    by (rule Mesh_ctor_ptr_wiring)
  from r show "i < length (getVbo m)" by (simp add: getVbo_def)
  from r show "attrib_wiring w' (m_va_handle m) (of_nat i) =
      Some (expected_pointer layout (getVbo m) i)" by (simp add: getVbo_def)
  from r show "attrib_source w' (m_va_handle m) (of_nat i) = Some (bo_handle (getVbo m ! i))"
    by (simp add: attrib_source_def getVbo_def expected_pointer_def)
next
  assume "Mesh_ctor_container cvd cidx layout ita ua pa w = Inr (m, w')"
    and "i < attrib_count layout"
  then have r: "i < length (m_vbos m) \<and>
        attrib_wiring w' (m_va_handle m) (of_nat i) = Some (expected_pointer layout (m_vbos m) i)"
    by (rule Mesh_ctor_container_wiring)
  from r show "i < length (getVbo m)" by (simp add: getVbo_def)
  from r show "attrib_wiring w' (m_va_handle m) (of_nat i) =
      Some (expected_pointer layout (getVbo m) i)" by (simp add: getVbo_def)
  from r show "attrib_source w' (m_va_handle m) (of_nat i) = Some (bo_handle (getVbo m ! i))"
    by (simp add: attrib_source_def getVbo_def expected_pointer_def)
next
  assume "length (attributes layout) < 2 ^ 32"
  then show "attrib_count layout = length (attributes layout)" by (rule attrib_count_length)
qed

theorem attribute_reads_from_its_own_buffer_witness:
  "length (attributes quad_layout) < 2 ^ 32 \<and> attrib_count quad_layout = 2 \<and>
   (\<exists>m w'. Mesh_ctor_ptr [replicate 80 0, replicate 80 0] [80, 80] (replicate 24 0) 24
              quad_layout None None None fresh_context = Inr (m, w') \<and>
            attrib_source w' (m_va_handle m) 1 = Some (bo_handle (getVbo m ! 1))) \<and>
   (\<exists>m w'. quad_construction = Inr (m, w') \<and>
            attrib_source w' (m_va_handle m) 1 = Some (bo_handle (getVbo m ! 1)) \<and>
            map_option ap_stride (attrib_wiring w' (m_va_handle m) 1) = Some 20)"
proof -
  have len: "length (attributes quad_layout) < 2 ^ 32" by (simp add: quad_lengths)
  from attribute_reads_from_its_own_buffer [THEN conjunct2, THEN conjunct2, rule_format, OF len]
  have c2: "attrib_count quad_layout = 2" by (simp add: quad_lengths)
  then have cnt: "(1 :: nat) < attrib_count quad_layout" by simp
  have "\<exists>m w'. Mesh_ctor_ptr [replicate 80 0, replicate 80 0] [80, 80] (replicate 24 0) 24
              quad_layout None None None fresh_context = Inr (m, w')"
    by (rule Mesh_ctor_ptr_succeeds) (simp_all add: quad_lengths)
  then obtain m w' where a: "Mesh_ctor_ptr [replicate 80 0, replicate 80 0] [80, 80]
       (replicate 24 0) 24 quad_layout None None None fresh_context = Inr (m, w')"
    by blast
  from quad_construction_Inr obtain m2 w2 where q: "quad_construction = Inr (m2, w2)" by blast
  then have b: "Mesh_ctor_container [quad_vertices, quad_vertices] quad_indices quad_layout
       None None None fresh_context = Inr (m2, w2)"
    by (simp add: quad_construction_def)
  from attribute_reads_from_its_own_buffer [where i = 1, THEN conjunct1, rule_format, OF a cnt]
  have a1: "attrib_source w' (m_va_handle m) 1 = Some (bo_handle (getVbo m ! 1))" by simp
  from attribute_reads_from_its_own_buffer
    [where i = 1, THEN conjunct2, THEN conjunct1, rule_format, OF b cnt]
  have b1: "attrib_source w2 (m_va_handle m2) 1 = Some (bo_handle (getVbo m2 ! 1))"
    and b2: "map_option ap_stride (attrib_wiring w2 (m_va_handle m2) 1) = Some 20"
    by (simp_all add: expected_pointer_def quad_layout_def)
  from len c2 a a1 q b1 b2 show ?thesis by blast
qed

text \<open>
  C2 as stated fails: the quad layout has exactly one shared stride, and after
  construction with two vertex buffers the second attribute reads from the
  second buffer (name 3), not from the buffer at index 0 (name 2).
\<close>

theorem shared_stride_counterexample:
  "length (strides quad_layout) = 1 \<and> \<not> isl quad_construction \<and>
   bo_handle (getVbo (fst (projr quad_construction)) ! 0) = 2 \<and>
   attrib_source (snd (projr quad_construction))
     (m_va_handle (fst (projr quad_construction))) 1 = Some 3"
proof -
  from quad_construction_Inr obtain m w' where q: "quad_construction = Inr (m, w')" by blast
  then have c: "Mesh_ctor_container [quad_vertices, quad_vertices] quad_indices quad_layout
       None None None fresh_context = Inr (m, w')"
    by (simp add: quad_construction_def)
  have cnt: "(1 :: nat) < attrib_count quad_layout"
    by (simp add: attrib_count_length quad_lengths)
  from quad_construction_handles [OF q]
  have h: "bo_handle (m_vbos m ! 0) = 2" "bo_handle (m_vbos m ! 1) = 3"
    by (metis nth_Cons_0 length_Cons nth_map zero_less_Suc length_map,
        metis One_nat_def nth_Cons_0 nth_Cons_Suc length_Cons nth_map lessI length_map list.size(3))
  from Mesh_ctor_container_wiring [OF c cnt] h
  have "attrib_source w' (m_va_handle m) 1 = Some 3"
    by (simp add: attrib_source_def expected_pointer_def)
  with h show ?thesis by (simp add: q getVbo_def quad_lengths)
qed

section \<open>Index count and index buffer size\<close>

lemma uint_to_GLuint_sdiv:
  "uint (to_GLuint (sdiv_GLsizeiptr bs k)) = (sint bs sdiv sint k) mod 2 ^ 32"
  by (simp add: to_GLuint_def sdiv_GLsizeiptr_def unsigned_ucast_eq uint_word_of_int
      take_bit_eq_mod mod_mod_cancel)

lemma uint_to_GLuint: "uint (to_GLuint x) = uint x mod 2 ^ 32"
  by (simp add: to_GLuint_def unsigned_ucast_eq take_bit_eq_mod)

lemma sdiv_nonneg: "0 \<le> a \<Longrightarrow> 0 < b \<Longrightarrow> a sdiv b = a div (b :: int)"
  by (simp add: signed_divide_int_def sgn_if)

lemma sint_small:
  assumes "uint (x :: GLsizeiptr) < 2 ^ 32"
  shows "sint x = uint x"
proof -
  have "- (2 ^ 63) \<le> uint x"
    by (rule order_trans [of _ 0]) simp_all
  moreover from assms have "uint x < 2 ^ 63" by simp
  ultimately show ?thesis
    by (simp add: sint_uint signed_take_bit_int_eq_self)
qed

lemma index_enums_distinct:
  "GL_UNSIGNED_BYTE \<noteq> GL_UNSIGNED_SHORT" "GL_UNSIGNED_BYTE \<noteq> GL_UNSIGNED_INT"
  "GL_UNSIGNED_SHORT \<noteq> GL_UNSIGNED_INT"
  by (simp_all add: GL_UNSIGNED_BYTE_def GL_UNSIGNED_SHORT_def GL_UNSIGNED_INT_def)

lemma element_size_cases:
  "element_size t \<noteq> 0 \<Longrightarrow>
     (t = GL_UNSIGNED_BYTE \<and> element_size t = 1) \<or>
     (t = GL_UNSIGNED_SHORT \<and> element_size t = 2) \<or>
     (t = GL_UNSIGNED_INT \<and> element_size t = 4)"
  using index_enums_distinct by (auto simp: element_size_def split: if_splits)

lemma Mesh_ctor_ptr_count:
  assumes "Mesh_ctor_ptr vd sizes idata bs layout ita ua pa w = Inr (m, w')"
    and "element_size (m_index_type m) \<noteq> 0"
  shows "bo_byte_size (m_ibo m) = bs \<and>
         uint (m_indices_cnt m) = (sint bs sdiv element_size (m_index_type m)) mod 2 ^ 32"
proof -
  from assms(1) have ib: "bo_byte_size (m_ibo m) = bs"
    and cnt: "m_indices_cnt m =
                (if m_index_type m = GL_UNSIGNED_INT
                 then to_GLuint (sdiv_GLsizeiptr bs 4)
                 else if m_index_type m = GL_UNSIGNED_SHORT
                 then to_GLuint (sdiv_GLsizeiptr bs 2)
                 else if m_index_type m = GL_UNSIGNED_BYTE
                 then to_GLuint (sdiv_GLsizeiptr bs 1)
                 else 0)"
    by (elim Mesh_ctor_ptr_InrE; simp add: BufferObject_new_def Let_def)+
  from element_size_cases [OF assms(2)] cnt index_enums_distinct
  have "uint (m_indices_cnt m) = (sint bs sdiv element_size (m_index_type m)) mod 2 ^ 32"
    by (auto simp: uint_to_GLuint_sdiv)
  with ib show ?thesis by simp
qed

lemma Mesh_ctor_container_count:
  assumes "Mesh_ctor_container cvd cidx layout ita ua pa w = Inr (m, w')"
    and "element_size (m_index_type m) \<noteq> 0"
  shows "bo_byte_size (m_ibo m) = c_size cidx * c_sizeof cidx \<and>
         uint (m_indices_cnt m) =
           (uint (c_size cidx * c_sizeof cidx) mod 2 ^ 32) div element_size (m_index_type m)"
proof -
  from assms(1) have ib: "bo_byte_size (m_ibo m) =  c_size cidx * c_sizeof cidx"
    and cnt: "m_indices_cnt m =
                (if m_index_type m = GL_UNSIGNED_INT
                 then to_GLuint (c_size cidx * c_sizeof cidx) div 4
                 else if m_index_type m = GL_UNSIGNED_SHORT
                 then to_GLuint (c_size cidx * c_sizeof cidx) div 2
                 else if m_index_type m = GL_UNSIGNED_BYTE
                 then to_GLuint (c_size cidx * c_sizeof cidx) div 1
                 else 0)"
    by (elim Mesh_ctor_container_InrE;
        simp add: BufferObject_new_container_def BufferObject_new_def Let_def)+
  from element_size_cases [OF assms(2)] cnt index_enums_distinct
  have "uint (m_indices_cnt m) =
          (uint (c_size cidx * c_sizeof cidx) mod 2 ^ 32) div element_size (m_index_type m)"
    by (auto simp: uint_div uint_to_GLuint)
  with ib show ?thesis by simp
qed

text \<open>
  C1, as the code has it, for an index type of 8, 16 or 32 bits. The two
  constructors compute the index count differently. The constructor from
  pointers divides the signed byte size of the index buffer by the element
  size, rounding towards zero, and then keeps the low 32 bits of the quotient.
  The constructor from containers first keeps the low 32 bits of the byte size
  of the index buffer and then divides them by the element size. The count
  times the element size equals the byte size of the index buffer when, from
  pointers, the byte size is a non-negative multiple of the element size whose
  quotient is below \<open>2 ^ 32\<close>, and when, from containers, the byte size is
  below \<open>2 ^ 32\<close> and a multiple of the element size.
\<close>

theorem index_count_from_byte_size:
  "(Mesh_ctor_ptr vd sizes idata bs layout ita ua pa w = Inr (m, w') \<longrightarrow>
      element_size (getIndexType m) \<noteq> 0 \<longrightarrow>
        getIndexBufferByteSize m = bs \<and>
        uint (getIndicesCount m) =
          (sint (getIndexBufferByteSize m) sdiv element_size (getIndexType m)) mod 2 ^ 32 \<and>
        (0 \<le> sint bs \<longrightarrow> element_size (getIndexType m) dvd sint bs \<longrightarrow>
         sint bs div element_size (getIndexType m) < 2 ^ 32 \<longrightarrow>
           uint (getIndicesCount m) * element_size (getIndexType m) =
             sint (getIndexBufferByteSize m))) \<and>
   (Mesh_ctor_container cvd cidx layout ita ua pa w = Inr (m, w') \<longrightarrow>
      element_size (getIndexType m) \<noteq> 0 \<longrightarrow>
        getIndexBufferByteSize m = c_size cidx * c_sizeof cidx \<and>
        uint (getIndicesCount m) =
          (uint (getIndexBufferByteSize m) mod 2 ^ 32) div element_size (getIndexType m) \<and>
        (uint (c_size cidx * c_sizeof cidx) < 2 ^ 32 \<longrightarrow>
         element_size (getIndexType m) dvd uint (c_size cidx * c_sizeof cidx) \<longrightarrow>
           uint (getIndicesCount m) * element_size (getIndexType m) =
             sint (getIndexBufferByteSize m)))"
proof (intro conjI impI)
  assume a: "Mesh_ctor_ptr vd sizes idata bs layout ita ua pa w = Inr (m, w')"
    and e: "element_size (getIndexType m) \<noteq> 0"
  from e have e': "element_size (m_index_type m) \<noteq> 0" by (simp add: getIndexType_def)
  note c = Mesh_ctor_ptr_count [OF a e']
  from c show "getIndexBufferByteSize m = bs"
    by (simp add: getIndexBufferByteSize_def BufferObject_getByteSize_def)
  from c show "uint (getIndicesCount m) =
      (sint (getIndexBufferByteSize m) sdiv element_size (getIndexType m)) mod 2 ^ 32"
    by (simp add: getIndexBufferByteSize_def BufferObject_getByteSize_def getIndicesCount_def
        getIndexType_def)
  assume nn: "0 \<le> sint bs" and dv: "element_size (getIndexType m) dvd sint bs"
    and sm: "sint bs div element_size (getIndexType m) < 2 ^ 32"
  from element_size_cases [OF e] have pos: "0 < element_size (getIndexType m)" by auto
  from nn pos have "sint bs sdiv element_size (getIndexType m) = sint bs div element_size (getIndexType m)"
    by (rule sdiv_nonneg)
  moreover from nn pos have "0 \<le> sint bs div element_size (getIndexType m)"
    by (simp add: pos_imp_zdiv_nonneg_iff)
  ultimately have "uint (getIndicesCount m) = sint bs div element_size (getIndexType m)"
    using c sm by (simp add: getIndicesCount_def getIndexType_def)
  with dv c show "uint (getIndicesCount m) * element_size (getIndexType m) =
      sint (getIndexBufferByteSize m)"
    by (simp add: getIndexBufferByteSize_def BufferObject_getByteSize_def)
next
  assume a: "Mesh_ctor_container cvd cidx layout ita ua pa w = Inr (m, w')"
    and e: "element_size (getIndexType m) \<noteq> 0"
  from e have e': "element_size (m_index_type m) \<noteq> 0" by (simp add: getIndexType_def)
  note c = Mesh_ctor_container_count [OF a e']
  from c show "getIndexBufferByteSize m = c_size cidx * c_sizeof cidx"
    by (simp add: getIndexBufferByteSize_def BufferObject_getByteSize_def)
  from c show "uint (getIndicesCount m) =
      (uint (getIndexBufferByteSize m) mod 2 ^ 32) div element_size (getIndexType m)"
    by (simp add: getIndexBufferByteSize_def BufferObject_getByteSize_def getIndicesCount_def
        getIndexType_def)
  assume sm: "uint (c_size cidx * c_sizeof cidx) < 2 ^ 32"
    and dv: "element_size (getIndexType m) dvd uint (c_size cidx * c_sizeof cidx)"
  from sm have "uint (c_size cidx * c_sizeof cidx) mod 2 ^ 32 = uint (c_size cidx * c_sizeof cidx)"
    by simp
  with c have "uint (getIndicesCount m) =
      uint (c_size cidx * c_sizeof cidx) div element_size (getIndexType m)"
    by (simp add: getIndicesCount_def getIndexType_def)
  with dv c sint_small [OF sm]
  show "uint (getIndicesCount m) * element_size (getIndexType m) =
      sint (getIndexBufferByteSize m)"
    by (simp add: getIndexBufferByteSize_def BufferObject_getByteSize_def)
qed

theorem index_count_from_byte_size_witness:
  "(\<exists>m w'. Mesh_ctor_ptr [replicate 80 0, replicate 80 0] [80, 80] (replicate 24 0) 20
              quad_layout (Some GL_UNSIGNED_SHORT) None None fresh_context = Inr (m, w') \<and>
            element_size (getIndexType m) = 2 \<and> getIndexBufferByteSize m = 20 \<and>
            uint (getIndicesCount m) = 10 \<and>
            uint (getIndicesCount m) * element_size (getIndexType m) =
              sint (getIndexBufferByteSize m)) \<and>
   (\<exists>m w'. quad_construction = Inr (m, w') \<and>
            element_size (getIndexType m) = 4 \<and> getIndexBufferByteSize m = 24 \<and>
            uint (getIndicesCount m) = 6 \<and>
            uint (getIndicesCount m) * element_size (getIndexType m) =
              sint (getIndexBufferByteSize m))"
proof -
  have "\<exists>m w'. Mesh_ctor_ptr [replicate 80 0, replicate 80 0] [80, 80] (replicate 24 0) 20
              quad_layout (Some GL_UNSIGNED_SHORT) None None fresh_context = Inr (m, w')"
    by (rule Mesh_ctor_ptr_succeeds) (simp_all add: quad_lengths)
  then obtain m w' where a: "Mesh_ctor_ptr [replicate 80 0, replicate 80 0] [80, 80]
       (replicate 24 0) 20 quad_layout (Some GL_UNSIGNED_SHORT) None None fresh_context
       = Inr (m, w')"
    by blast
  from quad_construction_Inr obtain m2 w2 where q: "quad_construction = Inr (m2, w2)" by blast
  then have b: "Mesh_ctor_container [quad_vertices, quad_vertices] quad_indices quad_layout
       None None None fresh_context = Inr (m2, w2)"
    by (simp add: quad_construction_def)
  from a have "getIndexType m = GL_UNSIGNED_SHORT"
    by (elim Mesh_ctor_ptr_InrE) (simp add: getIndexType_def default_arg_def)
  then have ea: "element_size (getIndexType m) = 2"
    by (simp add: element_size_def index_enums_distinct index_enums_distinct [symmetric])
  then have ea0: "element_size (getIndexType m) \<noteq> 0" by simp
  note A = index_count_from_byte_size [THEN conjunct1, rule_format, OF a ea0]
  from A have a1: "getIndexBufferByteSize m = 20" by simp
  from A ea a1 have a2: "uint (getIndicesCount m) = 10" by simp
  from A ea a1 have a3: "uint (getIndicesCount m) * element_size (getIndexType m) =
              sint (getIndexBufferByteSize m)" by simp
  from b have "getIndexType m2 = GL_UNSIGNED_INT"
    by (elim Mesh_ctor_container_InrE) (simp add: getIndexType_def default_arg_def)
  then have eb: "element_size (getIndexType m2) = 4"
    by (simp add: element_size_def index_enums_distinct [symmetric])
  then have eb0: "element_size (getIndexType m2) \<noteq> 0" by simp
  note B = index_count_from_byte_size [THEN conjunct2, rule_format, OF b eb0]
  from B have b1: "getIndexBufferByteSize m2 = 24" by (simp add: quad_indices_def)
  from B eb b1 have b2: "uint (getIndicesCount m2) = 6" by simp
  from B eb b1 have b3: "uint (getIndicesCount m2) * element_size (getIndexType m2) =
              sint (getIndexBufferByteSize m2)" by (simp add: quad_indices_def)
  from a ea a1 a2 a3 q eb b1 b2 b3 show ?thesis by blast
qed

text \<open>
  C1 as stated fails: with 32-bit indices and an index buffer of 5 bytes the
  index count is 1, and 1 times 4 is not 5.
\<close>

theorem index_count_counterexample:
  "\<not> isl five_byte_construction \<and>
   getIndexType (fst (projr five_byte_construction)) = GL_UNSIGNED_INT \<and>
   element_size (getIndexType (fst (projr five_byte_construction))) = 4 \<and>
   getIndexBufferByteSize (fst (projr five_byte_construction)) = 5 \<and>
   uint (getIndicesCount (fst (projr five_byte_construction))) = 1 \<and>
   uint (getIndicesCount (fst (projr five_byte_construction))) *
     element_size (getIndexType (fst (projr five_byte_construction))) \<noteq>
   sint (getIndexBufferByteSize (fst (projr five_byte_construction)))"
proof -
  have "\<exists>m w'. five_byte_construction = Inr (m, w')"
    unfolding five_byte_construction_def
    by (rule Mesh_ctor_ptr_succeeds) (simp_all add: quad_lengths)
  then obtain m w' where q: "five_byte_construction = Inr (m, w')" by blast
  then have a: "Mesh_ctor_ptr [replicate 80 0, replicate 80 0] [80, 80] [0, 1, 2, 3, 4] 5
       quad_layout None None None fresh_context = Inr (m, w')"
    by (simp add: five_byte_construction_def)
  from a have t: "m_index_type m = GL_UNSIGNED_INT"
    by (elim Mesh_ctor_ptr_InrE) (simp add: default_arg_def)
  then have e: "element_size (m_index_type m) = 4"
    by (simp add: element_size_def index_enums_distinct [symmetric])
  then have "element_size (m_index_type m) \<noteq> 0" by simp
  from Mesh_ctor_ptr_count [OF a this] e
  have "bo_byte_size (m_ibo m) = 5" and "uint (m_indices_cnt m) = 1"
    by simp_all
  with t e show ?thesis
    by (simp add: q getIndexType_def getIndicesCount_def getIndexBufferByteSize_def
        BufferObject_getByteSize_def)
qed

end
